theory Spec2Isabelle
  imports Main
begin

section \<open>Data model\<close>

text \<open>
  The job board keeps two collections, jobs and applications, in a document store.
  A document identifier (an ObjectId) is a natural number; the identifier of a new document
  is an input of the handler that creates it. An identifier that arrives in a request path
  or body is text: either it casts to an ObjectId or it does not.
  Points in time (\<open>new Date()\<close>, deadlines) are milliseconds, and the clock is an input
  of each handler that reads it.
  The users collection is not part of the model: a referenced user exists. The
  \<open>createdAt\<close> and \<open>updatedAt\<close> stamps that the schemas' \<open>timestamps\<close> option keeps
  are left out of the documents.
\<close>

type_synonym oid = nat
type_synonym time = nat

datatype idParam = Oid oid | Malformed string

text \<open>
  A link that arrives in a request body is text as well: the validator library's
  \<open>isURL\<close> accepts it or refuses it.
\<close>

datatype linkParam = Url string | NotUrl string

definition linkText :: "linkParam \<Rightarrow> string" where
  "linkText l = (case l of Url x \<Rightarrow> x | NotUrl x \<Rightarrow> x)"

text \<open>\<open>req.user\<close>, as the authentication middleware supplies it.\<close>

record user =
  uid :: oid
  role :: string

text \<open>The nested \<open>salary\<close> object of the job schema (models/Job).\<close>

record salaryRange =
  min_sal :: "int option"
  max_sal :: "int option"
  currency :: "string option"
  period :: "string option"

record jobDoc =
  title :: string
  company :: string
  description :: string
  requirements :: "string option"
  location :: string
  jtype :: string
  category :: string
  salary :: salaryRange
  tags :: "string list"
  logo :: string
  experienceLevel :: string
  benefits :: "string list"
  applicationDeadline :: "time option"
  isActive :: bool
  featured :: bool
  applicationsCount :: int
  viewsCount :: int
  createdBy :: oid

text \<open>The application schema (models/Application).\<close>

record application =
  job :: oid
  applicant :: oid
  coverLetter :: "string option"
  resumeLink :: string
  status :: string
  notes_app :: "string option"
  reviewedAt :: "time option"
  reviewedBy :: "oid option"

record store =
  jobs :: "(oid \<times> jobDoc) list"
  applications :: "(oid \<times> application) list"

text \<open>
  \<open>_id\<close> is unique within a collection, so the update and the removal of the document
  with a given \<open>_id\<close> act on every entry that carries it.
\<close>

definition updateById :: "oid \<Rightarrow> ('a \<Rightarrow> 'a) \<Rightarrow> (oid \<times> 'a) list \<Rightarrow> (oid \<times> 'a) list" where
  "updateById i f xs = map (\<lambda>(k, v). if k = i then (k, f v) else (k, v)) xs"

definition deleteById :: "oid \<Rightarrow> (oid \<times> 'a) list \<Rightarrow> (oid \<times> 'a) list" where
  "deleteById i xs = filter (\<lambda>(k, v). k \<noteq> i) xs"

text \<open>
  The write calls a handler awaits. The storage engine may refuse any of them; the set of
  refused calls is an input of each handler. A read is taken to answer.
\<close>

datatype dbWrite =
    SaveApplication | IncApplications | SaveStatus | DeleteApplication | DecApplications
  | IncViews | SaveJob | UpdateJob | DeleteJob | DeleteApplications

text \<open>What a handler's \<open>try\<close> block can throw, by \<open>error.name\<close>.\<close>

datatype exn = CastError | MongoError | TypeError | ValidationError "string list" | Error string

record pagination =
  currentPage :: int
  totalPages :: int
  totalJobs :: int
  limit :: int
  hasNext :: bool
  hasPrev :: bool

datatype payload =
    NoData
  | Errors "string list"
  | JobData oid jobDoc "string option"
  | ApplicationData oid application
  | JobsPage "(oid \<times> jobDoc \<times> string option option) list" pagination

record response =
  statusCode :: nat
  message :: string
  payload :: payload

definition reply :: "nat \<Rightarrow> string \<Rightarrow> response" where
  "reply c m = \<lparr>statusCode = c, message = m, payload = NoData\<rparr>"

definition validationFailed :: "string list \<Rightarrow> response" where
  "validationFailed errs = \<lparr>statusCode = 400, message = ''Validation failed'', payload = Errors errs\<rparr>"

text \<open>
  Every handler is one \<open>try\<close> block whose \<open>catch\<close> answers 500 with the route's message.
\<close>

definition catch500 :: "string \<Rightarrow> (exn + response) \<times> store \<Rightarrow> response \<times> store" where
  "catch500 msg r = (case r of (Inl e, s) \<Rightarrow> (reply 500 msg, s) | (Inr x, s) \<Rightarrow> (x, s))"

text \<open>
  The failure kinds of the specification, read off a response: the handlers answer with a
  status code and a message, and the duplicate application, the domain-rule violations and
  the validation failures all share status 400.
\<close>

datatype errorKind = ValidationErr | NotFound | Conflict | Forbidden | InvalidOperation | Unavailable

definition kindOf :: "response \<Rightarrow> errorKind option" where
  "kindOf r =
     (if statusCode r = 404 then Some NotFound
      else if statusCode r = 403 then Some Forbidden
      else if statusCode r = 500 then Some Unavailable
      else if statusCode r = 400 then
        (if message r = ''Validation failed'' \<or> message r = ''Invalid job ID format''
           then Some ValidationErr
         else if message r = ''You have already applied to this job'' then Some Conflict
         else Some InvalidOperation)
      else None)"

section \<open>Job catalog\<close>

subsection \<open>GET /api/jobs/:id\<close>

definition userApplicationStatus :: "store \<Rightarrow> oid \<Rightarrow> user option \<Rightarrow> string option" where
  "userApplicationStatus s i u =
     (case u of
        None \<Rightarrow> None
      | Some usr \<Rightarrow>
          map_option (\<lambda>(k, a). status a)
            (find (\<lambda>(k, a). job a = i \<and> applicant a = uid usr) (applications s)))"

definition getJobBody :: "dbWrite set \<Rightarrow> store \<Rightarrow> idParam \<Rightarrow> user option \<Rightarrow> (exn + response) \<times> store" where
  "getJobBody flt s p u =
     (case p of
        Malformed x \<Rightarrow> (Inl CastError, s)
      | Oid i \<Rightarrow>
          (case map_of (jobs s) i of
             None \<Rightarrow> (Inr (reply 404 ''Job not found or inactive''), s)
           | Some j \<Rightarrow>
               if \<not> isActive j then (Inr (reply 404 ''Job not found or inactive''), s)
               else if IncViews \<in> flt then (Inl MongoError, s)
               else
                 let s' = s\<lparr>jobs := updateById i (\<lambda>d. d\<lparr>viewsCount := viewsCount d + 1\<rparr>) (jobs s)\<rparr>
                 in (Inr \<lparr>statusCode = 200, message = [], payload = JobData i j (userApplicationStatus s' i u)\<rparr>, s')))"

definition getJob :: "dbWrite set \<Rightarrow> store \<Rightarrow> idParam \<Rightarrow> user option \<Rightarrow> response \<times> store" where
  "getJob flt s p u =
     (case getJobBody flt s p u of
        (Inl e, s') \<Rightarrow>
          (if e = CastError then reply 400 ''Invalid job ID format''
           else reply 500 ''Server error fetching job'', s')
      | (Inr r, s') \<Rightarrow> (r, s'))"

subsection \<open>Request bodies\<close>

text \<open>
  A request body is a JSON object: keys with values, in the order of the text. The values
  carry the JSON type the schema path expects; a value of another type at a schema path is
  a cast failure (the conversions Mongoose attempts between numbers and strings are not
  modelled).
\<close>

datatype jvalue =
    JStr string | JNum int | JBool bool | JList "string list"
  | JSalary salaryRange | JDate time | JId oid

type_synonym body = "(string \<times> jvalue) list"

definition isSpace :: "char \<Rightarrow> bool" where
  "isSpace c = ((of_char c :: nat) \<in> set [32, 9, 10, 11, 12, 13])"

definition trim :: "string \<Rightarrow> string" where
  "trim s = rev (dropWhile isSpace (rev (dropWhile isSpace s)))"

definition toLowerCase :: "string \<Rightarrow> string" where
  "toLowerCase s =
     map (\<lambda>c. if 65 \<le> (of_char c :: nat) \<and> (of_char c :: nat) \<le> 90
               then char_of ((of_char c :: nat) + 32) else c) s"

text \<open>
  \<open>[...new Set(tags.map((tag) => tag.toLowerCase().trim()))]\<close>: a set keeps the first
  occurrence of each element.
\<close>

definition normalizeTags :: "string list \<Rightarrow> string list" where
  "normalizeTags ts = rev (remdups (rev (map (\<lambda>t. trim (toLowerCase t)) ts)))"

definition normalizeTagsIn :: "body \<Rightarrow> body" where
  "normalizeTagsIn b =
     map (\<lambda>(k, v). if k = ''tags'' then (case v of JList ts \<Rightarrow> (k, JList (normalizeTags ts)) | _ \<Rightarrow> (k, v))
                    else (k, v)) b"

subsection \<open>The job model: casting, validators, pre-save hook\<close>

definition jobTypes :: "string list" where
  "jobTypes = [''full-time'', ''part-time'', ''contract'', ''internship'', ''remote'']"

definition categories :: "string list" where
  "categories = [''technology'', ''marketing'', ''design'', ''sales'', ''finance'', ''healthcare'',
                 ''education'', ''engineering'', ''operations'', ''customer-service'', ''other'']"

definition levels :: "string list" where
  "levels = [''entry'', ''mid'', ''senior'', ''lead'', ''executive'']"

definition periods :: "string list" where
  "periods = [''hourly'', ''monthly'', ''yearly'']"

text \<open>
  Assigning one key of a body to a job document, with the schema's setters (\<open>trim\<close>,
  \<open>lowercase\<close>). \<open>None\<close> is a cast failure; a key that is no schema path is dropped
  (strict mode).
\<close>

definition setField :: "string \<Rightarrow> jvalue \<Rightarrow> jobDoc \<Rightarrow> jobDoc option" where
  "setField k v j =
     (if k = ''title'' then (case v of JStr x \<Rightarrow> Some (j\<lparr>title := trim x\<rparr>) | _ \<Rightarrow> None)
      else if k = ''company'' then (case v of JStr x \<Rightarrow> Some (j\<lparr>company := trim x\<rparr>) | _ \<Rightarrow> None)
      else if k = ''description'' then (case v of JStr x \<Rightarrow> Some (j\<lparr>description := x\<rparr>) | _ \<Rightarrow> None)
      else if k = ''requirements'' then (case v of JStr x \<Rightarrow> Some (j\<lparr>requirements := Some x\<rparr>) | _ \<Rightarrow> None)
      else if k = ''location'' then (case v of JStr x \<Rightarrow> Some (j\<lparr>location := trim x\<rparr>) | _ \<Rightarrow> None)
      else if k = ''type'' then (case v of JStr x \<Rightarrow> Some (j\<lparr>jtype := x\<rparr>) | _ \<Rightarrow> None)
      else if k = ''category'' then (case v of JStr x \<Rightarrow> Some (j\<lparr>category := x\<rparr>) | _ \<Rightarrow> None)
      else if k = ''salary'' then (case v of JSalary r \<Rightarrow> Some (j\<lparr>salary := r\<rparr>) | _ \<Rightarrow> None)
      else if k = ''tags'' then
        (case v of JList ts \<Rightarrow> Some (j\<lparr>tags := map (\<lambda>t. toLowerCase (trim t)) ts\<rparr>) | _ \<Rightarrow> None)
      else if k = ''logo'' then (case v of JStr x \<Rightarrow> Some (j\<lparr>logo := x\<rparr>) | _ \<Rightarrow> None)
      else if k = ''experienceLevel'' then
        (case v of JStr x \<Rightarrow> Some (j\<lparr>experienceLevel := x\<rparr>) | _ \<Rightarrow> None)
      else if k = ''benefits'' then (case v of JList bs \<Rightarrow> Some (j\<lparr>benefits := bs\<rparr>) | _ \<Rightarrow> None)
      else if k = ''applicationDeadline'' then
        (case v of JDate d \<Rightarrow> Some (j\<lparr>applicationDeadline := Some d\<rparr>) | _ \<Rightarrow> None)
      else if k = ''isActive'' then (case v of JBool b \<Rightarrow> Some (j\<lparr>isActive := b\<rparr>) | _ \<Rightarrow> None)
      else if k = ''featured'' then (case v of JBool b \<Rightarrow> Some (j\<lparr>featured := b\<rparr>) | _ \<Rightarrow> None)
      else if k = ''applicationsCount'' then
        (case v of JNum n \<Rightarrow> Some (j\<lparr>applicationsCount := n\<rparr>) | _ \<Rightarrow> None)
      else if k = ''viewsCount'' then (case v of JNum n \<Rightarrow> Some (j\<lparr>viewsCount := n\<rparr>) | _ \<Rightarrow> None)
      else if k = ''createdBy'' then (case v of JId i \<Rightarrow> Some (j\<lparr>createdBy := i\<rparr>) | _ \<Rightarrow> None)
      else Some j)"

fun applyFields :: "body \<Rightarrow> jobDoc \<Rightarrow> jobDoc option" where
  "applyFields [] j = Some j"
| "applyFields ((k, v) # kvs) j =
     (case setField k v j of None \<Rightarrow> None | Some j' \<Rightarrow> applyFields kvs j')"

text \<open>The schema's validators of one path: the list is empty when the path is valid.\<close>

definition validatePath :: "string \<Rightarrow> jobDoc \<Rightarrow> string list" where
  "validatePath k j =
     (if k = ''title'' then (if title j = [] \<or> 100 < length (title j) then [k] else [])
      else if k = ''company'' then (if company j = [] \<or> 100 < length (company j) then [k] else [])
      else if k = ''description'' then
        (if description j = [] \<or> 5000 < length (description j) then [k] else [])
      else if k = ''requirements'' then
        (case requirements j of None \<Rightarrow> [] | Some r \<Rightarrow> if 3000 < length r then [k] else [])
      else if k = ''location'' then (if location j = [] then [k] else [])
      else if k = ''type'' then (if jtype j \<in> set jobTypes then [] else [k])
      else if k = ''category'' then (if category j \<in> set categories then [] else [k])
      else if k = ''salary'' then
        (case min_sal (salary j) of None \<Rightarrow> [] | Some a \<Rightarrow> if a < 0 then [''salary.min''] else [])
        @ (case max_sal (salary j) of None \<Rightarrow> [] | Some b \<Rightarrow> if b < 0 then [''salary.max''] else [])
        @ (case period (salary j) of None \<Rightarrow> [] | Some p \<Rightarrow> if p \<in> set periods then [] else [''salary.period''])
      else if k = ''experienceLevel'' then (if experienceLevel j \<in> set levels then [] else [k])
      else [])"

definition schemaPaths :: "string list" where
  "schemaPaths = [''title'', ''company'', ''description'', ''requirements'', ''location'', ''type'',
                  ''category'', ''salary'', ''tags'', ''logo'', ''experienceLevel'', ''benefits'',
                  ''applicationDeadline'', ''isActive'', ''featured'', ''applicationsCount'',
                  ''viewsCount'', ''createdBy'']"

definition validatePaths :: "string list \<Rightarrow> jobDoc \<Rightarrow> string list" where
  "validatePaths ks j = concat (map (\<lambda>k. validatePath k j) ks)"

text \<open>
  \<open>jobSchema.pre("save")\<close>: the hook tests \<open>this.salary.min && this.salary.max &&
  this.salary.min > this.salary.max\<close>; a bound that is absent or zero is falsy.
\<close>

definition salaryRangeRejected :: "jobDoc \<Rightarrow> bool" where
  "salaryRangeRejected j =
     (case min_sal (salary j) of
        None \<Rightarrow> False
      | Some a \<Rightarrow>
          (case max_sal (salary j) of
             None \<Rightarrow> False
           | Some b \<Rightarrow> a \<noteq> 0 \<and> b \<noteq> 0 \<and> b < a))"

definition defaultJob :: jobDoc where
  "defaultJob =
     \<lparr>title = [], company = [], description = [], requirements = None, location = [],
      jtype = [], category = [],
      salary = \<lparr>min_sal = None, max_sal = None, currency = Some ''USD'', period = Some ''yearly''\<rparr>,
      tags = [], logo = [], experienceLevel = ''mid'', benefits = [],
      applicationDeadline = None, isActive = True, featured = False,
      applicationsCount = 0, viewsCount = 0, createdBy = 0\<rparr>"

definition salaryDefaults :: "jobDoc \<Rightarrow> jobDoc" where
  "salaryDefaults j =
     j\<lparr>salary := (salary j)
          \<lparr>currency := (case currency (salary j) of None \<Rightarrow> Some ''USD'' | Some c \<Rightarrow> Some c),
           period := (case period (salary j) of None \<Rightarrow> Some ''yearly'' | Some p \<Rightarrow> Some p)\<rparr>\<rparr>"

text \<open>
  \<open>new Job(jobData)\<close> followed by \<open>save\<close>: a cast failure and a failed validator both
  surface as a validation error of \<open>save\<close>; then the pre-save hook runs; then the insert.
\<close>

definition insertJob :: "dbWrite set \<Rightarrow> oid \<Rightarrow> body \<Rightarrow> store \<Rightarrow> exn + (jobDoc \<times> store)" where
  "insertJob flt newId jobData s =
     (case applyFields jobData defaultJob of
        None \<Rightarrow> Inl (ValidationError [''cast''])
      | Some j0 \<Rightarrow>
          let j = salaryDefaults j0 in
          if validatePaths schemaPaths j \<noteq> [] then Inl (ValidationError (validatePaths schemaPaths j))
          else if salaryRangeRejected j then
            Inl (Error ''Minimum salary cannot be greater than maximum salary'')
          else if SaveJob \<in> flt then Inl MongoError
          else if newId \<in> set (map fst (jobs s)) then Inl MongoError
          else Inr (j, s\<lparr>jobs := jobs s @ [(newId, j)]\<rparr>))"

subsection \<open>POST /api/jobs\<close>

text \<open>Reading a key of a body: where the text repeats a key, the last value stands.\<close>

definition field :: "body \<Rightarrow> string \<Rightarrow> jvalue option" where
  "field b k = map_of (rev b) k"

definition strField :: "body \<Rightarrow> string \<Rightarrow> string" where
  "strField b k = (case field b k of Some (JStr x) \<Rightarrow> trim x | _ \<Rightarrow> [])"

definition lengthBetween :: "nat \<Rightarrow> nat \<Rightarrow> string \<Rightarrow> bool" where
  "lengthBetween lo hi x = (lo \<le> length x \<and> length x \<le> hi)"

text \<open>The en dash of the route's messages, in UTF-8.\<close>

definition enDash :: string where
  "enDash = [char_of (226 :: nat), char_of (128 :: nat), char_of (147 :: nat)]"

text \<open>
  The chain of the route, as far as the body's types leave it open: a salary bound is a
  number by its type, so the two \<open>isNumeric\<close> checks hold. The route's middleware
  (\<open>authenticate\<close>, \<open>isEmployerOrAdmin\<close>) has admitted the request.
\<close>

definition createErrors :: "body \<Rightarrow> string list" where
  "createErrors b =
     (if lengthBetween 3 100 (strField b ''title'') then []
      else [''Title must be 3'' @ enDash @ ''100 characters''])
     @ (if lengthBetween 2 100 (strField b ''company'') then []
        else [''Company name must be 2'' @ enDash @ ''100 characters''])
     @ (if lengthBetween 50 5000 (strField b ''description'') then []
        else [''Description must be 50'' @ enDash @ ''5000 characters''])
     @ (if lengthBetween 2 100 (strField b ''location'') then []
        else [''Location must be 2'' @ enDash @ ''100 characters''])
     @ (case field b ''type'' of
          Some (JStr x) \<Rightarrow> if x \<in> set jobTypes then [] else [''Invalid type'']
        | _ \<Rightarrow> [''Invalid type''])
     @ (case field b ''category'' of
          Some (JStr x) \<Rightarrow> if x \<in> set categories then [] else [''Invalid category'']
        | _ \<Rightarrow> [''Invalid category''])
     @ (case field b ''experienceLevel'' of
          None \<Rightarrow> []
        | Some (JStr x) \<Rightarrow> if x \<in> set levels then [] else [''Invalid level'']
        | Some _ \<Rightarrow> [''Invalid level''])"

text \<open>The \<open>trim()\<close> sanitizers of the chain rewrite the body.\<close>

definition sanitize :: "body \<Rightarrow> body" where
  "sanitize b =
     map (\<lambda>(k, v). if k \<in> set [''title'', ''company'', ''description'', ''location'']
                    then (case v of JStr x \<Rightarrow> (k, JStr (trim x)) | _ \<Rightarrow> (k, v))
                    else (k, v)) b"

definition createJobBody :: "dbWrite set \<Rightarrow> oid \<Rightarrow> store \<Rightarrow> body \<Rightarrow> user \<Rightarrow> (exn + response) \<times> store" where
  "createJobBody flt newId s b u =
     (if createErrors b \<noteq> [] then (Inr (validationFailed (createErrors b)), s)
      else
        let jobData = normalizeTagsIn
              (filter (\<lambda>(k, v). k \<noteq> ''createdBy'') (sanitize b) @ [(''createdBy'', JId (uid u))])
        in (case insertJob flt newId jobData s of
              Inl e \<Rightarrow> (Inl e, s)
            | Inr (j, s') \<Rightarrow>
                (Inr \<lparr>statusCode = 201, message = ''Job created successfully'',
                      payload = JobData newId j None\<rparr>, s')))"

definition createJob :: "dbWrite set \<Rightarrow> oid \<Rightarrow> store \<Rightarrow> body \<Rightarrow> user \<Rightarrow> response \<times> store" where
  "createJob flt newId s b u = catch500 ''Server error creating job'' (createJobBody flt newId s b u)"

subsection \<open>PUT /api/jobs/:id\<close>

definition allowedUpdates :: "string list" where
  "allowedUpdates = [''title'', ''company'', ''description'', ''requirements'', ''location'', ''type'',
                     ''category'', ''salary'', ''tags'', ''logo'', ''experienceLevel'', ''benefits'',
                     ''applicationDeadline'', ''isActive'', ''featured'']"

text \<open>
  \<open>findByIdAndUpdate(id, { $set: updates }, { new: true, runValidators: true })\<close>: the
  update is cast, the validators of the paths it sets are run, and the document is written.
  Document middleware (the pre-save hook) is not part of this call.
\<close>

definition findByIdAndUpdate :: "dbWrite set \<Rightarrow> oid \<Rightarrow> body \<Rightarrow> store \<Rightarrow> exn + (jobDoc option \<times> store)" where
  "findByIdAndUpdate flt i updates s =
     (case map_of (jobs s) i of
        None \<Rightarrow> Inr (None, s)
      | Some j \<Rightarrow>
          (case applyFields updates j of
             None \<Rightarrow> Inl CastError
           | Some j' \<Rightarrow>
               if validatePaths (map fst updates) j' \<noteq> [] then
                 Inl (ValidationError (validatePaths (map fst updates) j'))
               else if UpdateJob \<in> flt then Inl MongoError
               else Inr (Some j', s\<lparr>jobs := updateById i (\<lambda>old. j') (jobs s)\<rparr>)))"

definition updateJobBody :: "dbWrite set \<Rightarrow> store \<Rightarrow> idParam \<Rightarrow> body \<Rightarrow> user \<Rightarrow> (exn + response) \<times> store" where
  "updateJobBody flt s p b u =
     (case p of
        Malformed x \<Rightarrow> (Inl CastError, s)
      | Oid i \<Rightarrow>
          (case map_of (jobs s) i of
             None \<Rightarrow> (Inr (reply 404 ''Job not found''), s)
           | Some j \<Rightarrow>
               if createdBy j \<noteq> uid u \<and> role u \<noteq> ''admin'' then (Inr (reply 403 ''Access denied''), s)
               else
                 let updates = normalizeTagsIn (filter (\<lambda>(k, v). k \<in> set allowedUpdates) b)
                 in (case findByIdAndUpdate flt i updates s of
                       Inl e \<Rightarrow> (Inl e, s)
                     | Inr (None, s') \<Rightarrow>
                         (Inr \<lparr>statusCode = 200, message = ''Job updated successfully'',
                               payload = NoData\<rparr>, s')
                     | Inr (Some j', s') \<Rightarrow>
                         (Inr \<lparr>statusCode = 200, message = ''Job updated successfully'',
                               payload = JobData i j' None\<rparr>, s'))))"

definition updateJob :: "dbWrite set \<Rightarrow> store \<Rightarrow> idParam \<Rightarrow> body \<Rightarrow> user \<Rightarrow> response \<times> store" where
  "updateJob flt s p b u = catch500 ''Server error updating job'' (updateJobBody flt s p b u)"

subsection \<open>DELETE /api/jobs/:id\<close>

definition deleteJobBody :: "dbWrite set \<Rightarrow> store \<Rightarrow> idParam \<Rightarrow> user \<Rightarrow> (exn + response) \<times> store" where
  "deleteJobBody flt s p u =
     (case p of
        Malformed x \<Rightarrow> (Inl CastError, s)
      | Oid i \<Rightarrow>
          (case map_of (jobs s) i of
             None \<Rightarrow> (Inr (reply 404 ''Job not found''), s)
           | Some j \<Rightarrow>
               if createdBy j \<noteq> uid u \<and> role u \<noteq> ''admin'' then (Inr (reply 403 ''Access denied''), s)
               else
                 let s1 = (if DeleteJob \<in> flt then s else s\<lparr>jobs := deleteById i (jobs s)\<rparr>);
                     s2 = (if DeleteApplications \<in> flt then s1
                           else s1\<lparr>applications := filter (\<lambda>(k, a). job a \<noteq> i) (applications s1)\<rparr>)
                 in if DeleteJob \<in> flt \<or> DeleteApplications \<in> flt then (Inl MongoError, s2)
                    else (Inr (reply 200 ''Job deleted successfully''), s2)))"

definition deleteJob :: "dbWrite set \<Rightarrow> store \<Rightarrow> idParam \<Rightarrow> user \<Rightarrow> response \<times> store" where
  "deleteJob flt s p u = catch500 ''Server error deleting job'' (deleteJobBody flt s p u)"

subsection \<open>GET /api/jobs\<close>

text \<open>
  The query string, with the numbers already read (\<open>parseInt\<close>); a filter value is one
  string or an array of them.
\<close>

datatype oneOrMany = One string | Many "string list"

record listQuery =
  q_page :: "int option"
  q_limit :: "int option"
  q_keyword :: "string option"
  q_location :: "string option"
  q_type :: "oneOrMany option"
  q_category :: "oneOrMany option"
  q_minSalary :: "int option"
  q_maxSalary :: "int option"
  q_experienceLevel :: "oneOrMany option"
  q_sortBy :: "string option"
  q_sortOrder :: "string option"
  q_featured :: "string option"

definition listErrors :: "listQuery \<Rightarrow> string list" where
  "listErrors q =
     (case q_page q of None \<Rightarrow> [] | Some n \<Rightarrow> if 1 \<le> n then [] else [''Page must be a positive integer''])
     @ (case q_limit q of
          None \<Rightarrow> []
        | Some n \<Rightarrow> if 1 \<le> n \<and> n \<le> 50 then [] else [''Limit must be between 1 and 50''])"

text \<open>
  The storage filter the handler builds. A constraint object on a numeric path holds the
  operators assigned to it; \<open>{}\<close> holds none.
\<close>

record numCond =
  gte :: "int option"
  lte :: "int option"

record jobFilter =
  f_isActive :: bool
  f_text :: "string option"
  f_location :: "string option"
  f_type :: "oneOrMany option"
  f_category :: "oneOrMany option"
  f_experienceLevel :: "oneOrMany option"
  f_salary_min :: "numCond option"
  f_salary_max :: "numCond option"
  f_featured :: "bool option"

text \<open>JavaScript truthiness of a query value: an empty string is falsy, an array is truthy.\<close>

definition truthyStr :: "string option \<Rightarrow> string option" where
  "truthyStr v = (case v of None \<Rightarrow> None | Some x \<Rightarrow> if x = [] then None else Some x)"

definition truthyVal :: "oneOrMany option \<Rightarrow> oneOrMany option" where
  "truthyVal v = (case v of Some (One x) \<Rightarrow> if x = [] then None else Some (One x) | _ \<Rightarrow> v)"

definition buildQuery :: "listQuery \<Rightarrow> jobFilter" where
  "buildQuery q =
     \<lparr>f_isActive = True,
      f_text = truthyStr (q_keyword q),
      f_location = truthyStr (q_location q),
      f_type = truthyVal (q_type q),
      f_category = truthyVal (q_category q),
      f_experienceLevel = truthyVal (q_experienceLevel q),
      f_salary_min =
        (if q_minSalary q \<noteq> None \<or> q_maxSalary q \<noteq> None
         then Some \<lparr>gte = q_minSalary q, lte = None\<rparr> else None),
      f_salary_max =
        (case q_maxSalary q of None \<Rightarrow> None | Some m \<Rightarrow> Some \<lparr>gte = None, lte = Some m\<rparr>),
      f_featured = (if q_featured q = Some ''true'' then Some True else None)\<rparr>"

datatype sortKey = TextScore | By string int

definition buildSort :: "listQuery \<Rightarrow> sortKey list" where
  "buildSort q =
     (let sortBy = (case q_sortBy q of None \<Rightarrow> ''createdAt'' | Some x \<Rightarrow> x);
          dir = (if q_sortOrder q = None \<or> q_sortOrder q = Some ''desc'' then - 1 else 1)
      in (if truthyStr (q_keyword q) \<noteq> None then [TextScore] else [])
         @ [if sortBy = ''salary'' then By ''salary.min'' dir
            else if sortBy = ''applications'' then By ''applicationsCount'' dir
            else By sortBy dir])"

text \<open>
  What the handler leaves to the storage engine: full-text search, the regular-expression
  test, and the order of two documents under the sort keys.
\<close>

record engine =
  textSearch :: "string \<Rightarrow> jobDoc \<Rightarrow> bool"
  regexTest :: "string \<Rightarrow> string \<Rightarrow> bool"
  precedes :: "sortKey list \<Rightarrow> oid \<times> jobDoc \<Rightarrow> oid \<times> jobDoc \<Rightarrow> bool"

text \<open>\<open>.sort(sortOptions)\<close>: the result in the engine's order for the sort keys.\<close>

fun insertBy :: "('a \<Rightarrow> 'a \<Rightarrow> bool) \<Rightarrow> 'a \<Rightarrow> 'a list \<Rightarrow> 'a list" where
  "insertBy le x [] = [x]"
| "insertBy le x (y # ys) = (if le x y then x # y # ys else y # insertBy le x ys)"

definition sortDocs :: "engine \<Rightarrow> sortKey list \<Rightarrow> (oid \<times> jobDoc) list \<Rightarrow> (oid \<times> jobDoc) list" where
  "sortDocs eng ks xs = foldr (insertBy (precedes eng ks)) xs []"

definition isEmptyCond :: "numCond option \<Rightarrow> bool" where
  "isEmptyCond c = (case c of None \<Rightarrow> False | Some d \<Rightarrow> gte d = None \<and> lte d = None)"

text \<open>
  A numeric field, present or absent, against the operators of a constraint: the field
  must be a number within the bounds.
\<close>

definition matchNum :: "numCond option \<Rightarrow> int option \<Rightarrow> bool" where
  "matchNum c v =
     (case c of
        None \<Rightarrow> True
      | Some d \<Rightarrow>
          (case v of
             None \<Rightarrow> False
           | Some n \<Rightarrow>
               (case gte d of None \<Rightarrow> True | Some g \<Rightarrow> g \<le> n)
               \<and> (case lte d of None \<Rightarrow> True | Some l \<Rightarrow> n \<le> l)))"

definition matchVal :: "oneOrMany option \<Rightarrow> string \<Rightarrow> bool" where
  "matchVal c v = (case c of None \<Rightarrow> True | Some (One x) \<Rightarrow> v = x | Some (Many xs) \<Rightarrow> v \<in> set xs)"

definition matchesFilter :: "engine \<Rightarrow> jobFilter \<Rightarrow> jobDoc \<Rightarrow> bool" where
  "matchesFilter eng f j =
     (isActive j = f_isActive f
      \<and> (case f_text f of None \<Rightarrow> True | Some w \<Rightarrow> textSearch eng w j)
      \<and> (case f_location f of None \<Rightarrow> True | Some r \<Rightarrow> regexTest eng r (location j))
      \<and> matchVal (f_type f) (jtype j)
      \<and> matchVal (f_category f) (category j)
      \<and> matchVal (f_experienceLevel f) (experienceLevel j)
      \<and> matchNum (f_salary_min f) (min_sal (salary j))
      \<and> matchNum (f_salary_max f) (max_sal (salary j))
      \<and> (case f_featured f of None \<Rightarrow> True | Some b \<Rightarrow> featured j = b))"

text \<open>
  \<open>Job.find(query)\<close> and \<open>Job.countDocuments(query)\<close> share the filter, which Mongoose
  casts against the schema before it reaches the engine. \<open>salary.min\<close> and \<open>salary.max\<close>
  are Number paths of the job schema: a constraint object there that holds no operator is
  cast as a value, an object is not a number, and the query is rejected with a CastError.
  The documents are matched only against a filter that has passed the cast.
\<close>

definition findJobs :: "engine \<Rightarrow> jobFilter \<Rightarrow> store \<Rightarrow> exn + (oid \<times> jobDoc) list" where
  "findJobs eng f s =
     (if isEmptyCond (f_salary_min f) \<or> isEmptyCond (f_salary_max f) then Inl CastError
      else Inr (filter (\<lambda>(k, j). matchesFilter eng f j) (jobs s)))"

text \<open>
  The status of the requester's own application per job of the page: the handler folds the
  requester's applications into a map, a later one overwriting an earlier one, and reads
  \<open>appMap[id] || null\<close>.
\<close>

definition appStatusOf :: "store \<Rightarrow> user \<Rightarrow> oid list \<Rightarrow> oid \<Rightarrow> string option" where
  "appStatusOf s u ids i =
     truthyStr (map_of (rev (map (\<lambda>(k, a). (job a, status a))
        (filter (\<lambda>(k, a). applicant a = uid u \<and> job a \<in> set ids) (applications s)))) i)"

definition listJobsBody :: "engine \<Rightarrow> store \<Rightarrow> listQuery \<Rightarrow> user option \<Rightarrow> (exn + response) \<times> store" where
  "listJobsBody eng s q u =
     (if listErrors q \<noteq> [] then (Inr (validationFailed (listErrors q)), s)
      else
        let page = (case q_page q of None \<Rightarrow> 1 | Some n \<Rightarrow> n);
            lim = (case q_limit q of None \<Rightarrow> 10 | Some n \<Rightarrow> n);
            skip = (page - 1) * lim
        in (case findJobs eng (buildQuery q) s of
              Inl e \<Rightarrow> (Inl e, s)
            | Inr found \<Rightarrow>
                let docs = take (nat lim) (drop (nat skip) (sortDocs eng (buildSort q) found));
                    total = int (length found);
                    pages = (total + lim - 1) div lim;
                    ids = map fst docs
                in (Inr \<lparr>statusCode = 200, message = [],
                         payload = JobsPage
                           (map (\<lambda>(k, j). (k, j,
                              (case u of None \<Rightarrow> None | Some usr \<Rightarrow> Some (appStatusOf s usr ids k)))) docs)
                           \<lparr>currentPage = page, totalPages = pages, totalJobs = total, limit = lim,
                            hasNext = (page < pages), hasPrev = (1 < page)\<rparr>\<rparr>, s)))"

definition listJobs :: "engine \<Rightarrow> store \<Rightarrow> listQuery \<Rightarrow> user option \<Rightarrow> response \<times> store" where
  "listJobs eng s q u = catch500 ''Server error fetching jobs'' (listJobsBody eng s q u)"

section \<open>Application tracker\<close>

definition statuses :: "string list" where
  "statuses = [''pending'', ''reviewed'', ''shortlisted'', ''interviewed'', ''hired'', ''rejected'']"

subsection \<open>The application model: validators, pre-save hook, unique index\<close>

text \<open>The schema's validators of one path: the list is empty when the path is valid.\<close>

definition validateAppPath :: "string \<Rightarrow> application \<Rightarrow> string list" where
  "validateAppPath k a =
     (if k = ''coverLetter'' then
        (case coverLetter a of None \<Rightarrow> [] | Some c \<Rightarrow> if 2000 < length c then [k] else [])
      else if k = ''resumeLink'' then (if resumeLink a = [] then [k] else [])
      else if k = ''status'' then (if status a \<in> set statuses then [] else [k])
      else if k = ''notes'' then
        (case notes_app a of None \<Rightarrow> [] | Some n \<Rightarrow> if 1000 < length n then [k] else [])
      else [])"

definition validateAppPaths :: "string list \<Rightarrow> application \<Rightarrow> string list" where
  "validateAppPaths ks a = concat (map (\<lambda>k. validateAppPath k a) ks)"

text \<open>A new document is validated on every path.\<close>

definition validateApplication :: "application \<Rightarrow> string list" where
  "validateApplication a = validateAppPaths [''coverLetter'', ''resumeLink'', ''status'', ''notes''] a"

text \<open>
  \<open>applicationSchema.pre("save")\<close>: the hook stamps \<open>reviewedAt\<close> when the status was
  modified, is not pending, and no stamp is there yet.
\<close>

definition preSaveApplication :: "time \<Rightarrow> bool \<Rightarrow> application \<Rightarrow> application" where
  "preSaveApplication now statusModified a =
     (if statusModified \<and> status a \<noteq> ''pending'' \<and> reviewedAt a = None
      then a\<lparr>reviewedAt := Some now\<rparr> else a)"

text \<open>
  \<open>save\<close> of a new application: validation, the hook, then the insert, which the storage
  engine refuses when the \<open>_id\<close> is taken or when the unique index on (job, applicant)
  already holds the pair.
\<close>

definition insertApplication :: "dbWrite set \<Rightarrow> time \<Rightarrow> oid \<Rightarrow> application \<Rightarrow> store \<Rightarrow> exn + (application \<times> store)" where
  "insertApplication flt now newId a s =
     (if validateApplication a \<noteq> [] then Inl (ValidationError (validateApplication a))
      else
        let a' = preSaveApplication now False a in
        if SaveApplication \<in> flt then Inl MongoError
        else if newId \<in> set (map fst (applications s)) then Inl MongoError
        else if (job a', applicant a') \<in> set (map (\<lambda>(k, b). (job b, applicant b)) (applications s))
          then Inl MongoError
        else Inr (a', s\<lparr>applications := applications s @ [(newId, a')]\<rparr>))"

text \<open>
  \<open>save\<close> of a loaded application whose fields the handler has assigned: the required
  path and the modified paths are validated, the hook sees whether the status is among the
  modified paths, and the document is written.
\<close>

definition saveApplication :: "dbWrite set \<Rightarrow> time \<Rightarrow> oid \<Rightarrow> string list \<Rightarrow> application \<Rightarrow> store \<Rightarrow> exn + (application \<times> store)" where
  "saveApplication flt now i modified a s =
     (if validateAppPaths (''resumeLink'' # modified) a \<noteq> []
        then Inl (ValidationError (validateAppPaths (''resumeLink'' # modified) a))
      else
        let a' = preSaveApplication now (''status'' \<in> set modified) a in
        if SaveStatus \<in> flt then Inl MongoError
        else Inr (a', s\<lparr>applications := updateById i (\<lambda>old. a') (applications s)\<rparr>))"

subsection \<open>POST /api/applications\<close>

record applyReq =
  req_jobId :: idParam
  req_resumeLink :: linkParam
  req_coverLetter :: "string option"

text \<open>The express-validator chain of the route.\<close>

definition applyErrors :: "applyReq \<Rightarrow> string list" where
  "applyErrors req =
     (case req_jobId req of Oid i \<Rightarrow> [] | Malformed x \<Rightarrow> [''Invalid job ID''])
     @ (case req_resumeLink req of Url x \<Rightarrow> [] | NotUrl x \<Rightarrow> [''Resume link must be a valid URL''])
     @ (case req_coverLetter req of
          None \<Rightarrow> []
        | Some c \<Rightarrow> if 2000 < length c then [''Cover letter cannot exceed 2000 characters''] else [])"

definition deadlinePassed :: "time \<Rightarrow> jobDoc \<Rightarrow> bool" where
  "deadlinePassed now j = (case applicationDeadline j of None \<Rightarrow> False | Some d \<Rightarrow> d < now)"

definition existingApplication :: "store \<Rightarrow> oid \<Rightarrow> oid \<Rightarrow> (oid \<times> application) option" where
  "existingApplication s jid a = find (\<lambda>(k, b). job b = jid \<and> applicant b = a) (applications s)"

definition newApplication :: "oid \<Rightarrow> applyReq \<Rightarrow> user \<Rightarrow> application" where
  "newApplication jid req u =
     \<lparr>job = jid, applicant = uid u, coverLetter = req_coverLetter req,
      resumeLink = linkText (req_resumeLink req), status = ''pending'', notes_app = None,
      reviewedAt = None, reviewedBy = None\<rparr>"

definition applyBody ::
  "dbWrite set \<Rightarrow> time \<Rightarrow> oid \<Rightarrow> store \<Rightarrow> applyReq \<Rightarrow> user \<Rightarrow> (exn + response) \<times> store" where
  "applyBody flt now newId s req u =
     (if applyErrors req \<noteq> [] then (Inr (validationFailed (applyErrors req)), s)
      else case req_jobId req of
        Malformed x \<Rightarrow> (Inl CastError, s)
      | Oid jid \<Rightarrow>
          (case map_of (jobs s) jid of
             None \<Rightarrow> (Inr (reply 404 ''Job not found''), s)
           | Some j \<Rightarrow>
               if \<not> isActive j then
                 (Inr (reply 400 ''This job is no longer accepting applications''), s)
               else if deadlinePassed now j then
                 (Inr (reply 400 ''Application deadline has passed''), s)
               else if existingApplication s jid (uid u) \<noteq> None then
                 (Inr (reply 400 ''You have already applied to this job''), s)
               else if createdBy j = uid u then
                 (Inr (reply 400 ''You cannot apply to your own job posting''), s)
               else
                 (case insertApplication flt now newId (newApplication jid req u) s of
                    Inl e \<Rightarrow> (Inl e, s)
                  | Inr (a, s1) \<Rightarrow>
                      if IncApplications \<in> flt then (Inl MongoError, s1)
                      else
                        (Inr \<lparr>statusCode = 201, message = ''Application submitted successfully'',
                              payload = ApplicationData newId a\<rparr>,
                         s1\<lparr>jobs := updateById jid
                                (\<lambda>d. d\<lparr>applicationsCount := applicationsCount d + 1\<rparr>) (jobs s1)\<rparr>))))"

definition applyToJob ::
  "dbWrite set \<Rightarrow> time \<Rightarrow> oid \<Rightarrow> store \<Rightarrow> applyReq \<Rightarrow> user \<Rightarrow> response \<times> store" where
  "applyToJob flt now newId s req u =
     catch500 ''Server error submitting application'' (applyBody flt now newId s req u)"

subsection \<open>PUT /api/applications/:id/status\<close>

record statusReq =
  req_status :: string
  req_notes :: "string option"

definition statusErrors :: "statusReq \<Rightarrow> string list" where
  "statusErrors req =
     (if req_status req \<in> set statuses then [] else [''Invalid status''])
     @ (case req_notes req of
          None \<Rightarrow> []
        | Some n \<Rightarrow> if 1000 < length n then [''Notes cannot exceed 1000 characters''] else [])"

text \<open>
  The handler's four assignments before \<open>save\<close>; \<open>if (notes)\<close> skips an absent and an
  empty note.
\<close>

definition assignReview :: "time \<Rightarrow> statusReq \<Rightarrow> user \<Rightarrow> application \<Rightarrow> application" where
  "assignReview now req u a =
     (let a1 = a\<lparr>status := req_status req\<rparr>;
          a2 = (case req_notes req of
                  None \<Rightarrow> a1
                | Some n \<Rightarrow> if n = [] then a1 else a1\<lparr>notes_app := Some n\<rparr>);
          a3 = a2\<lparr>reviewedBy := Some (uid u)\<rparr>
      in a3\<lparr>reviewedAt := Some now\<rparr>)"

text \<open>The paths whose value the assignments have changed.\<close>

definition modifiedPaths :: "application \<Rightarrow> application \<Rightarrow> string list" where
  "modifiedPaths a b =
     (if status b \<noteq> status a then [''status''] else [])
     @ (if notes_app b \<noteq> notes_app a then [''notes''] else [])
     @ (if reviewedBy b \<noteq> reviewedBy a then [''reviewedBy''] else [])
     @ (if reviewedAt b \<noteq> reviewedAt a then [''reviewedAt''] else [])"

definition updateStatusBody ::
  "dbWrite set \<Rightarrow> time \<Rightarrow> store \<Rightarrow> idParam \<Rightarrow> statusReq \<Rightarrow> user \<Rightarrow> (exn + response) \<times> store" where
  "updateStatusBody flt now s p req u =
     (if statusErrors req \<noteq> [] then (Inr (validationFailed (statusErrors req)), s)
      else case p of
        Malformed x \<Rightarrow> (Inl CastError, s)
      | Oid i \<Rightarrow>
          (case map_of (applications s) i of
             None \<Rightarrow> (Inr (reply 404 ''Application not found''), s)
           | Some a \<Rightarrow>
               (case map_of (jobs s) (job a) of
                  None \<Rightarrow> (Inl TypeError, s)
                | Some j \<Rightarrow>
                    if createdBy j \<noteq> uid u \<and> role u \<noteq> ''admin'' then
                      (Inr (reply 403
                         ''Access denied. You can only update applications for your own jobs.''), s)
                    else
                      (case saveApplication flt now i (modifiedPaths a (assignReview now req u a))
                              (assignReview now req u a) s of
                         Inl e \<Rightarrow> (Inl e, s)
                       | Inr (a', s') \<Rightarrow>
                           (Inr \<lparr>statusCode = 200,
                                 message = ''Application status updated successfully'',
                                 payload = ApplicationData i a'\<rparr>, s')))))"

definition updateStatus ::
  "dbWrite set \<Rightarrow> time \<Rightarrow> store \<Rightarrow> idParam \<Rightarrow> statusReq \<Rightarrow> user \<Rightarrow> response \<times> store" where
  "updateStatus flt now s p req u =
     catch500 ''Server error updating application status'' (updateStatusBody flt now s p req u)"

subsection \<open>GET /api/applications/:id\<close>

definition getOneBody :: "store \<Rightarrow> idParam \<Rightarrow> user \<Rightarrow> (exn + response) \<times> store" where
  "getOneBody s p u =
     (case p of
        Malformed x \<Rightarrow> (Inl CastError, s)
      | Oid i \<Rightarrow>
          (case map_of (applications s) i of
             None \<Rightarrow> (Inr (reply 404 ''Application not found''), s)
           | Some a \<Rightarrow>
               (case map_of (jobs s) (job a) of
                  None \<Rightarrow> (Inl TypeError, s)
                | Some j \<Rightarrow>
                    if applicant a \<noteq> uid u \<and> createdBy j \<noteq> uid u \<and> role u \<noteq> ''admin'' then
                      (Inr (reply 403
                         ''Access denied. You can only view your own applications or applications to your jobs.''), s)
                    else
                      (Inr \<lparr>statusCode = 200, message = [], payload = ApplicationData i a\<rparr>, s))))"

definition getOne :: "store \<Rightarrow> idParam \<Rightarrow> user \<Rightarrow> response \<times> store" where
  "getOne s p u = catch500 ''Server error fetching application'' (getOneBody s p u)"

subsection \<open>DELETE /api/applications/:id\<close>

text \<open>
  \<open>Promise.all\<close> starts the removal and the decrement together: each takes effect unless
  the storage engine refuses it, and the handler fails when either is refused.
\<close>

definition withdrawBody :: "dbWrite set \<Rightarrow> store \<Rightarrow> idParam \<Rightarrow> user \<Rightarrow> (exn + response) \<times> store" where
  "withdrawBody flt s p u =
     (case p of
        Malformed x \<Rightarrow> (Inl CastError, s)
      | Oid i \<Rightarrow>
          (case map_of (applications s) i of
             None \<Rightarrow> (Inr (reply 404 ''Application not found''), s)
           | Some a \<Rightarrow>
               if applicant a \<noteq> uid u then
                 (Inr (reply 403 ''Access denied. You can only withdraw your own applications.''), s)
               else if status a \<in> set [''hired'', ''rejected''] then
                 (Inr (reply 400 ''Cannot withdraw application that has already been processed''), s)
               else
                 let s1 = (if DeleteApplication \<in> flt then s
                           else s\<lparr>applications := deleteById i (applications s)\<rparr>);
                     s2 = (if DecApplications \<in> flt then s1
                           else s1\<lparr>jobs := updateById (job a)
                                  (\<lambda>d. d\<lparr>applicationsCount := applicationsCount d - 1\<rparr>) (jobs s1)\<rparr>)
                 in if DeleteApplication \<in> flt \<or> DecApplications \<in> flt then (Inl MongoError, s2)
                    else (Inr (reply 200 ''Application withdrawn successfully''), s2)))"

definition withdraw :: "dbWrite set \<Rightarrow> store \<Rightarrow> idParam \<Rightarrow> user \<Rightarrow> response \<times> store" where
  "withdraw flt s p u = catch500 ''Server error withdrawing application'' (withdrawBody flt s p u)"

section \<open>Reachable stores\<close>

text \<open>
  The stores the service can be in: it starts with both collections empty, and every
  request, by any requester, with any input and any refusals of the storage engine, leads
  from one store to the next.
\<close>

definition emptyStore :: store where
  "emptyStore = \<lparr>jobs = [], applications = []\<rparr>"

inductive reachable :: "store \<Rightarrow> bool" where
  init: "reachable emptyStore"
| listed: "reachable s \<Longrightarrow> reachable (snd (listJobs eng s q ou))"
| viewed: "reachable s \<Longrightarrow> reachable (snd (getJob flt s p ou))"
| created: "reachable s \<Longrightarrow> reachable (snd (createJob flt newId s b u))"
| updated: "reachable s \<Longrightarrow> reachable (snd (updateJob flt s p b u))"
| deleted: "reachable s \<Longrightarrow> reachable (snd (deleteJob flt s p u))"
| applied: "reachable s \<Longrightarrow> reachable (snd (applyToJob flt now newId s req u))"
| reviewed: "reachable s \<Longrightarrow> reachable (snd (updateStatus flt now s p sreq u))"
| fetched: "reachable s \<Longrightarrow> reachable (snd (getOne s p u))"
| withdrawn: "reachable s \<Longrightarrow> reachable (snd (withdraw flt s p u))"

definition pairOf :: "oid \<times> application \<Rightarrow> oid \<times> oid" where
  "pairOf e = (job (snd e), applicant (snd e))"

definition uniqueApplications :: "store \<Rightarrow> bool" where
  "uniqueApplications s = distinct (map pairOf (applications s))"

definition uniqueIds :: "store \<Rightarrow> bool" where
  "uniqueIds s = (distinct (map fst (jobs s)) \<and> distinct (map fst (applications s)))"

definition wellFormed :: "store \<Rightarrow> bool" where
  "wellFormed s = (uniqueIds s \<and> uniqueApplications s)"

section \<open>Example data\<close>

definition recruiter :: user where
  "recruiter = \<lparr>uid = 10, role = ''recruiter''\<rparr>"

definition seeker :: user where
  "seeker = \<lparr>uid = 20, role = ''job_seeker''\<rparr>"

definition exampleJob :: jobDoc where
  "exampleJob =
     \<lparr>title = ''Backend engineer'', company = ''Acme'',
      description = ''Builds and operates the services behind the job board.'',
      requirements = None, location = ''Lahore'', jtype = ''full-time'', category = ''technology'',
      salary = \<lparr>min_sal = Some 3000, max_sal = Some 5000, currency = Some ''USD'',
                period = Some ''yearly''\<rparr>,
      tags = [], logo = [], experienceLevel = ''mid'', benefits = [],
      applicationDeadline = Some 1000, isActive = True, featured = False,
      applicationsCount = 0, viewsCount = 0, createdBy = 10\<rparr>"

definition exampleApplication :: application where
  "exampleApplication =
     \<lparr>job = 1, applicant = 20, coverLetter = None, resumeLink = ''https://example.org/cv.pdf'',
      status = ''pending'', notes_app = None, reviewedAt = None, reviewedBy = None\<rparr>"

definition postedStore :: store where
  "postedStore = \<lparr>jobs = [(1, exampleJob)], applications = []\<rparr>"

definition appliedStore :: store where
  "appliedStore = \<lparr>jobs = [(1, exampleJob\<lparr>applicationsCount := 1\<rparr>)],
                    applications = [(5, exampleApplication)]\<rparr>"

definition hiredStore :: store where
  "hiredStore = \<lparr>jobs = [(1, exampleJob\<lparr>applicationsCount := 1\<rparr>)],
                  applications = [(5, exampleApplication\<lparr>status := ''hired''\<rparr>)]\<rparr>"

definition ownerAppliedStore :: store where
  "ownerAppliedStore = \<lparr>jobs = [(1, exampleJob)],
                         applications = [(5, exampleApplication\<lparr>applicant := 10\<rparr>)]\<rparr>"

definition closedStore :: store where
  "closedStore = \<lparr>jobs = [(1, exampleJob\<lparr>applicationsCount := 1, isActive := False\<rparr>)],
                   applications = [(5, exampleApplication)]\<rparr>"

definition exampleApply :: applyReq where
  "exampleApply = \<lparr>req_jobId = Oid 1, req_resumeLink = Url ''https://example.org/cv.pdf'',
                    req_coverLetter = None\<rparr>"

definition deactivation :: body where
  "deactivation = [(''isActive'', JBool False)]"

definition bodyWithSalary :: "int \<Rightarrow> int \<Rightarrow> body" where
  "bodyWithSalary lo hi =
     [(''title'', JStr ''Backend engineer''), (''company'', JStr ''Acme''),
      (''description'', JStr ''Builds and operates the services behind the job board.''),
      (''location'', JStr ''Lahore''), (''type'', JStr ''full-time''),
      (''category'', JStr ''technology''), (''applicationDeadline'', JDate 1000),
      (''salary'', JSalary \<lparr>min_sal = Some lo, max_sal = Some hi, currency = None,
                              period = None\<rparr>)]"

definition exampleBody :: body where
  "exampleBody = bodyWithSalary 3000 5000"

definition invertedSalary :: body where
  "invertedSalary =
     [(''salary'', JSalary \<lparr>min_sal = Some 5000, max_sal = Some 3000, currency = None,
                              period = None\<rparr>)]"

definition massAssignment :: body where
  "massAssignment =
     [(''title'', JStr ''Platform engineer''), (''createdBy'', JId 99),
      (''applicationsCount'', JNum 7), (''viewsCount'', JNum 1000)]"

definition exampleEngine :: engine where
  "exampleEngine =
     \<lparr>textSearch = (\<lambda>w j. True), regexTest = (\<lambda>r x. True), precedes = (\<lambda>ks a b. fst a \<le> fst b)\<rparr>"

definition maxSalaryOnly :: listQuery where
  "maxSalaryOnly =
     \<lparr>q_page = None, q_limit = None, q_keyword = None, q_location = None, q_type = None,
      q_category = None, q_minSalary = None, q_maxSalary = Some 100000, q_experienceLevel = None,
      q_sortBy = None, q_sortOrder = None, q_featured = None\<rparr>"

section \<open>Properties\<close>

subsection \<open>Collections\<close>

lemma map_of_updateById:
  "map_of (updateById i f xs) k = (if k = i then map_option f (map_of xs i) else map_of xs k)"
  by (induction xs) (auto simp: updateById_def)

lemma map_of_deleteById:
  "map_of (deleteById i xs) k = (if k = i then None else map_of xs k)"
  by (induction xs) (auto simp: deleteById_def)

lemma map_fst_updateById: "map fst (updateById i f xs) = map fst xs"
  by (induction xs) (auto simp: updateById_def)

lemma updateById_absent: "i \<notin> fst ` set xs \<Longrightarrow> updateById i f xs = xs"
  by (induction xs) (auto simp: updateById_def)

lemma distinct_deleteById: "distinct (map g xs) \<Longrightarrow> distinct (map g (deleteById i xs))"
  by (simp add: deleteById_def distinct_map_filter)

text \<open>Replacing a document by one with the same image under \<open>g\<close> keeps the images.\<close>

lemma updateById_same_image:
  assumes "distinct (map fst xs)" and "map_of xs i = Some a" and "g (i, a') = g (i, a)"
  shows "map g (updateById i (\<lambda>old. a') xs) = map g xs"
  using assms
proof (induction xs)
  case Nil
  then show ?case by simp
next
  case (Cons x xs)
  show ?case
  proof (cases "fst x = i")
    case True
    with Cons.prems have "snd x = a" and "i \<notin> fst ` set xs" by auto
    then have "updateById i (\<lambda>old. a') xs = xs" by (simp add: updateById_absent)
    then have "updateById i (\<lambda>old. a') (x # xs) = (i, a') # xs"
      using True by (cases x) (simp add: updateById_def)
    with \<open>snd x = a\<close> True Cons.prems(3) show ?thesis by (cases x) simp
  next
    case False
    with Cons.prems have "distinct (map fst xs)" and "map_of xs i = Some a" by auto
    with Cons.IH Cons.prems(3) have "map g (updateById i (\<lambda>old. a') xs) = map g xs" by simp
    with False show ?thesis by (cases x) (simp add: updateById_def)
  qed
qed

lemma map_of_filter_None:
  assumes "distinct (map fst xs)" and "(k, a) \<in> set xs" and "\<not> P (k, a)"
  shows "map_of (filter P xs) k = None"
proof -
  have "\<And>b. (k, b) \<in> set (filter P xs) \<Longrightarrow> False"
  proof -
    fix b assume h: "(k, b) \<in> set (filter P xs)"
    then have "(k, b) \<in> set xs" and "P (k, b)" by auto
    with assms(1,2) have "b = a" by (meson eq_key_imp_eq_value)
    with \<open>P (k, b)\<close> assms(3) show False by simp
  qed
  then show ?thesis by (meson map_of_SomeD not_Some_eq)
qed

lemma find_append_last: "P x \<Longrightarrow> find P (xs @ [x]) \<noteq> None"
  by (induction xs) auto

lemma distinct_map_count_le1:
  "distinct (map g xs) \<Longrightarrow> length (filter (\<lambda>x. g x = y) xs) \<le> 1"
proof (induction xs)
  case Nil
  then show ?case by simp
next
  case (Cons x xs)
  show ?case
  proof (cases "g x = y")
    case True
    from Cons.prems have "g x \<notin> g ` set xs" by simp
    with True have "\<forall>z\<in>set xs. g z \<noteq> y" by (metis imageI)
    then have "filter (\<lambda>x. g x = y) xs = []" by (simp add: filter_empty_conv)
    with True show ?thesis by simp
  next
    case False
    with Cons show ?thesis by simp
  qed
qed

subsection \<open>Every handler keeps the store well formed\<close>

lemma wf_getJob: "wellFormed s \<Longrightarrow> wellFormed (snd (getJob flt s p ou))"
  by (auto simp: getJob_def getJobBody_def wellFormed_def uniqueIds_def uniqueApplications_def
        Let_def map_fst_updateById split: idParam.splits option.splits)

lemma wf_listJobs: "wellFormed s \<Longrightarrow> wellFormed (snd (listJobs eng s q ou))"
  by (auto simp: listJobs_def listJobsBody_def catch500_def Let_def split: sum.splits)

lemma wf_getOne: "wellFormed s \<Longrightarrow> wellFormed (snd (getOne s p u))"
  by (auto simp: getOne_def getOneBody_def catch500_def split: idParam.splits option.splits)

lemma wf_createJob: "wellFormed s \<Longrightarrow> wellFormed (snd (createJob flt newId s b u))"
  by (auto simp: createJob_def createJobBody_def insertJob_def catch500_def Let_def
        wellFormed_def uniqueIds_def uniqueApplications_def
        split: sum.splits option.splits if_splits)

lemma wf_updateJob: "wellFormed s \<Longrightarrow> wellFormed (snd (updateJob flt s p b u))"
  by (auto simp: updateJob_def updateJobBody_def findByIdAndUpdate_def catch500_def Let_def
        wellFormed_def uniqueIds_def uniqueApplications_def map_fst_updateById
        split: sum.splits option.splits if_splits idParam.splits)

lemma wf_deleteJob: "wellFormed s \<Longrightarrow> wellFormed (snd (deleteJob flt s p u))"
  by (auto simp: deleteJob_def deleteJobBody_def catch500_def Let_def
        wellFormed_def uniqueIds_def uniqueApplications_def distinct_deleteById distinct_map_filter
        split: option.splits if_splits idParam.splits)

lemma wf_withdraw: "wellFormed s \<Longrightarrow> wellFormed (snd (withdraw flt s p u))"
  by (auto simp: withdraw_def withdrawBody_def catch500_def Let_def
        wellFormed_def uniqueIds_def uniqueApplications_def distinct_deleteById map_fst_updateById
        split: option.splits if_splits idParam.splits)

text \<open>The insert is guarded by both unique indexes, whatever the handler has checked.\<close>

lemma wf_applyToJob: "wellFormed s \<Longrightarrow> wellFormed (snd (applyToJob flt now newId s req u))"
  by (auto simp: applyToJob_def applyBody_def insertApplication_def catch500_def Let_def
        wellFormed_def uniqueIds_def uniqueApplications_def map_fst_updateById pairOf_def
        preSaveApplication_def image_iff
        split: option.splits if_splits idParam.splits sum.splits prod.splits)

lemma pair_assignReview:
  "job (preSaveApplication now m (assignReview now' req u a)) = job a
   \<and> applicant (preSaveApplication now m (assignReview now' req u a)) = applicant a"
  by (simp add: preSaveApplication_def assignReview_def Let_def split: option.split)

lemma wf_saveApplication:
  assumes "wellFormed s" and "map_of (applications s) i = Some a"
    and "saveApplication flt now i m (assignReview now' req u a) s = Inr (a', s')"
  shows "wellFormed s'"
proof -
  from assms(3) have a': "a' = preSaveApplication now (''status'' \<in> set m) (assignReview now' req u a)"
    and s': "s' = s\<lparr>applications := updateById i (\<lambda>old. a') (applications s)\<rparr>"
    by (auto simp: saveApplication_def Let_def split: if_splits)
  have "pairOf (i, a') = pairOf (i, a)"
    unfolding a' pairOf_def using pair_assignReview by simp
  with assms(1,2)
  have "map pairOf (updateById i (\<lambda>old. a') (applications s)) = map pairOf (applications s)"
    by (intro updateById_same_image) (auto simp: wellFormed_def uniqueIds_def)
  with assms(1) show ?thesis
    unfolding s' by (simp add: wellFormed_def uniqueIds_def uniqueApplications_def map_fst_updateById)
qed

lemma wf_updateStatus: "wellFormed s \<Longrightarrow> wellFormed (snd (updateStatus flt now s p sreq u))"
  by (auto simp: updateStatus_def updateStatusBody_def catch500_def
        split: option.splits if_splits idParam.splits sum.splits dest: wf_saveApplication)

lemma reachable_wellFormed: "reachable s \<Longrightarrow> wellFormed s"
proof (induction rule: reachable.induct)
  case init
  show ?case by (simp add: emptyStore_def wellFormed_def uniqueIds_def uniqueApplications_def)
qed (simp_all add: wf_listJobs wf_getJob wf_createJob wf_updateJob wf_deleteJob wf_applyToJob
       wf_updateStatus wf_getOne wf_withdraw)

lemmas jobEval = createJob_def createJobBody_def catch500_def insertJob_def Let_def
  createErrors_def strField_def field_def lengthBetween_def trim_def isSpace_def
  sanitize_def normalizeTagsIn_def setField_def salaryDefaults_def defaultJob_def
  validatePaths_def validatePath_def schemaPaths_def salaryRangeRejected_def
  jobTypes_def categories_def levels_def periods_def
  updateJob_def updateJobBody_def findByIdAndUpdate_def allowedUpdates_def updateById_def
  exampleBody_def bodyWithSalary_def recruiter_def emptyStore_def postedStore_def
  exampleJob_def invertedSalary_def massAssignment_def reply_def
  appliedStore_def closedStore_def deactivation_def exampleApplication_def

text \<open>The example store with one posted job is the store after one Create.\<close>

lemma created_postedStore: "snd (createJob {} 1 emptyStore exampleBody recruiter) = postedStore"
  by (simp add: createJob_def createJobBody_def catch500_def insertJob_def Let_def
        createErrors_def strField_def field_def lengthBetween_def trim_def isSpace_def
        sanitize_def normalizeTagsIn_def setField_def salaryDefaults_def defaultJob_def
        validatePaths_def validatePath_def schemaPaths_def salaryRangeRejected_def
        jobTypes_def categories_def levels_def periods_def
        exampleBody_def bodyWithSalary_def recruiter_def emptyStore_def postedStore_def
        exampleJob_def)

subsection \<open>Applying\<close>

lemmas applyEval = applyToJob_def applyBody_def catch500_def applyErrors_def linkText_def
  insertApplication_def validateApplication_def validateAppPaths_def validateAppPath_def
  statuses_def preSaveApplication_def Let_def updateById_def newApplication_def
  deadlinePassed_def existingApplication_def validationFailed_def reply_def kindOf_def
  exampleApply_def postedStore_def appliedStore_def closedStore_def ownerAppliedStore_def
  exampleApplication_def exampleJob_def seeker_def recruiter_def

lemma applyToJob_success:
  assumes "applyToJob flt now newId s req u = (r, s')" and "statusCode r = 201"
  shows "\<exists>jid j. req_jobId req = Oid jid \<and> map_of (jobs s) jid = Some j \<and> isActive j
           \<and> s' = s\<lparr>applications := applications s @ [(newId, newApplication jid req u)],
                     jobs := updateById jid
                       (\<lambda>d. d\<lparr>applicationsCount := applicationsCount d + 1\<rparr>) (jobs s)\<rparr>"
  using assms
  by (auto simp: applyToJob_def applyBody_def insertApplication_def catch500_def Let_def
        reply_def validationFailed_def preSaveApplication_def newApplication_def
        split: option.splits if_splits idParam.splits sum.splits prod.splits)

text \<open>A successful Apply leaves an application of the requester for the job in the store.\<close>

lemma applyToJob_stores:
  assumes "applyToJob flt now newId s req u = (r, s')" and "statusCode r = 201"
  shows "\<exists>jid. req_jobId req = Oid jid \<and> existingApplication s' jid (uid u) \<noteq> None"
proof -
  from applyToJob_success[OF assms] obtain jid where
    jid: "req_jobId req = Oid jid"
    and s': "s' = s\<lparr>applications := applications s @ [(newId, newApplication jid req u)],
                     jobs := updateById jid
                       (\<lambda>d. d\<lparr>applicationsCount := applicationsCount d + 1\<rparr>) (jobs s)\<rparr>"
    by blast
  have "job (newApplication jid req u) = jid" "applicant (newApplication jid req u) = uid u"
    by (simp_all add: newApplication_def)
  then have "existingApplication s' jid (uid u) \<noteq> None"
    unfolding s' existingApplication_def by (simp add: find_append_last)
  with jid show ?thesis by blast
qed

text \<open>
  While an application of the requester for the job is stored, an Apply to the job is
  answered by the first check that fails, the duplicate check at the latest.
\<close>

lemma applyToJob_while_stored:
  assumes "existingApplication s jid (uid u) \<noteq> None" and "req_jobId req = Oid jid"
  shows "applyToJob flt now newId s req u =
           (if applyErrors req \<noteq> [] then validationFailed (applyErrors req)
            else case map_of (jobs s) jid of
              None \<Rightarrow> reply 404 ''Job not found''
            | Some j \<Rightarrow>
                if \<not> isActive j then reply 400 ''This job is no longer accepting applications''
                else if deadlinePassed now j then reply 400 ''Application deadline has passed''
                else reply 400 ''You have already applied to this job'', s)"
  using assms
  by (simp add: applyToJob_def applyBody_def catch500_def split: option.split)

lemma applyToJob_conflict_iff:
  assumes "existingApplication s jid (uid u) \<noteq> None" and "req_jobId req = Oid jid"
  shows "kindOf (fst (applyToJob flt now newId s req u)) = Some Conflict
           \<longleftrightarrow> applyErrors req = []
               \<and> (\<exists>j. map_of (jobs s) jid = Some j \<and> isActive j \<and> \<not> deadlinePassed now j)"
  unfolding applyToJob_while_stored[OF assms]
  by (simp add: kindOf_def reply_def validationFailed_def split: option.split)

lemma unique_reachable:
  assumes "reachable s"
  shows "length (filter (\<lambda>(k, a). job a = J \<and> applicant a = A) (applications s)) \<le> 1"
proof -
  from assms have "distinct (map pairOf (applications s))"
    using reachable_wellFormed by (simp add: wellFormed_def uniqueApplications_def)
  from distinct_map_count_le1[OF this, of "(J, A)"]
  show ?thesis by (simp add: pairOf_def case_prod_unfold)
qed

text \<open>The owner's Update with \<open>isActive\<close> false closes the job of the example.\<close>

lemma deactivated_appliedStore:
  "snd (updateJob {} appliedStore (Oid 1) deactivation recruiter) = closedStore"
  by (simp add: jobEval)

text \<open>
  C1, as the code has it. In every store the service can reach, at most one application
  exists for a job and an applicant. A successful Apply stores an application of the
  requester for the job. In every store that holds an application of a user for a job,
  whatever requests came before, an Apply by that user to that job fails and leaves the
  store as it was, and the handler answers with the first check that fails: the validation
  failure for a malformed request, "Job not found" (404) when the job is not stored, "This
  job is no longer accepting applications" when the job is inactive, "Application deadline
  has passed" when the deadline lies before the call, and the conflict "You have already
  applied to this job" in every other case. So the answer is the conflict exactly when the
  request passes validation and the job is stored, active and within its deadline at the
  time of the call.
\<close>

theorem apply_once:
  "(reachable s \<longrightarrow>
      length (filter (\<lambda>(k, a). job a = J \<and> applicant a = A) (applications s)) \<le> 1)
   \<and> (applyToJob flt now newId s0 req u = (r, s') \<and> statusCode r = 201 \<longrightarrow>
        (\<exists>jid. req_jobId req = Oid jid \<and> existingApplication s' jid (uid u) \<noteq> None))
   \<and> (existingApplication s1 jid1 (uid u1) \<noteq> None \<and> req_jobId req2 = Oid jid1 \<longrightarrow>
        applyToJob flt2 now2 newId2 s1 req2 u1 =
          (if applyErrors req2 \<noteq> [] then validationFailed (applyErrors req2)
           else case map_of (jobs s1) jid1 of
             None \<Rightarrow> reply 404 ''Job not found''
           | Some j \<Rightarrow>
               if \<not> isActive j then reply 400 ''This job is no longer accepting applications''
               else if deadlinePassed now2 j then reply 400 ''Application deadline has passed''
               else reply 400 ''You have already applied to this job'', s1)
        \<and> (kindOf (fst (applyToJob flt2 now2 newId2 s1 req2 u1)) = Some Conflict
             \<longleftrightarrow> applyErrors req2 = []
                 \<and> (\<exists>j. map_of (jobs s1) jid1 = Some j \<and> isActive j \<and> \<not> deadlinePassed now2 j)))"
proof -
  have a: "reachable s \<longrightarrow>
      length (filter (\<lambda>(k, a). job a = J \<and> applicant a = A) (applications s)) \<le> 1"
    using unique_reachable by blast
  have b: "applyToJob flt now newId s0 req u = (r, s') \<and> statusCode r = 201 \<longrightarrow>
        (\<exists>jid. req_jobId req = Oid jid \<and> existingApplication s' jid (uid u) \<noteq> None)"
    using applyToJob_stores by blast
  have c: "existingApplication s1 jid1 (uid u1) \<noteq> None \<and> req_jobId req2 = Oid jid1 \<longrightarrow>
        applyToJob flt2 now2 newId2 s1 req2 u1 =
          (if applyErrors req2 \<noteq> [] then validationFailed (applyErrors req2)
           else case map_of (jobs s1) jid1 of
             None \<Rightarrow> reply 404 ''Job not found''
           | Some j \<Rightarrow>
               if \<not> isActive j then reply 400 ''This job is no longer accepting applications''
               else if deadlinePassed now2 j then reply 400 ''Application deadline has passed''
               else reply 400 ''You have already applied to this job'', s1)
        \<and> (kindOf (fst (applyToJob flt2 now2 newId2 s1 req2 u1)) = Some Conflict
             \<longleftrightarrow> applyErrors req2 = []
                 \<and> (\<exists>j. map_of (jobs s1) jid1 = Some j \<and> isActive j \<and> \<not> deadlinePassed now2 j))"
  proof
    assume h: "existingApplication s1 jid1 (uid u1) \<noteq> None \<and> req_jobId req2 = Oid jid1"
    then have h1: "existingApplication s1 jid1 (uid u1) \<noteq> None"
      and h2: "req_jobId req2 = Oid jid1" by simp_all
    show "applyToJob flt2 now2 newId2 s1 req2 u1 =
          (if applyErrors req2 \<noteq> [] then validationFailed (applyErrors req2)
           else case map_of (jobs s1) jid1 of
             None \<Rightarrow> reply 404 ''Job not found''
           | Some j \<Rightarrow>
               if \<not> isActive j then reply 400 ''This job is no longer accepting applications''
               else if deadlinePassed now2 j then reply 400 ''Application deadline has passed''
               else reply 400 ''You have already applied to this job'', s1)
        \<and> (kindOf (fst (applyToJob flt2 now2 newId2 s1 req2 u1)) = Some Conflict
             \<longleftrightarrow> applyErrors req2 = []
                 \<and> (\<exists>j. map_of (jobs s1) jid1 = Some j \<and> isActive j \<and> \<not> deadlinePassed now2 j))"
      by (rule conjI[OF applyToJob_while_stored[OF h1 h2] applyToJob_conflict_iff[OF h1 h2]])
  qed
  show ?thesis by (rule conjI[OF a conjI[OF b c]])
qed

text \<open>
  The theorem at work: Create, then Apply at time 500, reaches a store with exactly one
  application for the pair, and a second Apply at time 600 is the conflict. After the owner
  has closed the job in between, the Apply at time 600 is refused for the closed job.
\<close>

theorem apply_once_witness:
  "reachable (snd (applyToJob {} 500 5 postedStore exampleApply seeker))
   \<and> length (filter (\<lambda>(k, a). job a = 1 \<and> applicant a = 20)
        (applications (snd (applyToJob {} 500 5 postedStore exampleApply seeker)))) = 1
   \<and> applyToJob {} 500 5 postedStore exampleApply seeker
       = (\<lparr>statusCode = 201, message = ''Application submitted successfully'',
           payload = ApplicationData 5 exampleApplication\<rparr>, appliedStore)
   \<and> existingApplication appliedStore 1 (uid seeker) \<noteq> None
   \<and> req_jobId exampleApply = Oid 1
   \<and> applyToJob {} 600 6 appliedStore exampleApply seeker
       = (reply 400 ''You have already applied to this job'', appliedStore)
   \<and> kindOf (fst (applyToJob {} 600 6 appliedStore exampleApply seeker)) = Some Conflict
   \<and> snd (updateJob {} appliedStore (Oid 1) deactivation recruiter) = closedStore
   \<and> existingApplication closedStore 1 (uid seeker) \<noteq> None
   \<and> applyToJob {} 600 6 closedStore exampleApply seeker
       = (reply 400 ''This job is no longer accepting applications'', closedStore)"
proof -
  let ?first = "applyToJob {} 500 5 postedStore exampleApply seeker"
  have "reachable (snd (createJob {} 1 emptyStore exampleBody recruiter))"
    by (rule reachable.created[OF reachable.init])
  then have "reachable postedStore" by (simp only: created_postedStore)
  then have r: "reachable (snd ?first)" by (rule reachable.applied)
  have ev: "?first =
      (\<lparr>statusCode = 201, message = ''Application submitted successfully'',
        payload = ApplicationData 5 exampleApplication\<rparr>, appliedStore)"
    by (simp add: applyEval)
  have st: "statusCode \<lparr>statusCode = 201, message = ''Application submitted successfully'',
        payload = ApplicationData 5 exampleApplication\<rparr> = 201" by simp
  have c: "length (filter (\<lambda>(k, a). job a = 1 \<and> applicant a = 20) (applications (snd ?first))) = 1"
    by (simp add: ev appliedStore_def exampleApplication_def)
  have q: "req_jobId exampleApply = Oid 1" by (simp add: exampleApply_def)
  have v: "applyErrors exampleApply = []" by (simp add: applyErrors_def exampleApply_def)
  have e1: "existingApplication appliedStore 1 (uid seeker) \<noteq> None"
    by (simp add: existingApplication_def appliedStore_def exampleApplication_def seeker_def)
  have e2: "existingApplication closedStore 1 (uid seeker) \<noteq> None"
    by (simp add: existingApplication_def closedStore_def exampleApplication_def seeker_def)
  have j1: "map_of (jobs appliedStore) 1 = Some (exampleJob\<lparr>applicationsCount := 1\<rparr>)"
    by (simp add: appliedStore_def)
  have j2: "map_of (jobs closedStore) 1 = Some (exampleJob\<lparr>applicationsCount := 1, isActive := False\<rparr>)"
    by (simp add: closedStore_def)
  have d: "isActive exampleJob" "\<not> deadlinePassed 600 (exampleJob\<lparr>applicationsCount := 1\<rparr>)"
    by (simp_all add: deadlinePassed_def exampleJob_def)
  from apply_once[of "snd ?first" 1 20 "{}" 500 5 postedStore exampleApply seeker
      "fst ?first" "snd ?first" appliedStore 1 seeker exampleApply "{}" 600 6]
  have a1: "applyToJob {} 600 6 appliedStore exampleApply seeker
              = (reply 400 ''You have already applied to this job'', appliedStore)"
    and k1: "kindOf (fst (applyToJob {} 600 6 appliedStore exampleApply seeker)) = Some Conflict"
    using e1 q v j1 d by (simp_all add: kindOf_def reply_def)
  from apply_once[of "snd ?first" 1 20 "{}" 500 5 postedStore exampleApply seeker
      "fst ?first" "snd ?first" closedStore 1 seeker exampleApply "{}" 600 6]
  have a2: "applyToJob {} 600 6 closedStore exampleApply seeker
              = (reply 400 ''This job is no longer accepting applications'', closedStore)"
    using e2 q v j2 by simp
  from r c ev e1 e2 q a1 k1 a2 deactivated_appliedStore show ?thesis by simp
qed

text \<open>
  The claim as stated fails where the deadline falls between the two calls: the first Apply
  at time 500 succeeds, the second at time 1500 is refused for the deadline of 1000, an
  invalid operation and not a conflict.
\<close>

theorem apply_once_counterexample:
  "statusCode (fst (applyToJob {} 500 5 postedStore exampleApply seeker)) = 201
   \<and> applyToJob {} 1500 6
        (snd (applyToJob {} 500 5 postedStore exampleApply seeker)) exampleApply seeker
       = (reply 400 ''Application deadline has passed'',
          snd (applyToJob {} 500 5 postedStore exampleApply seeker))
   \<and> kindOf (fst (applyToJob {} 1500 6
        (snd (applyToJob {} 500 5 postedStore exampleApply seeker)) exampleApply seeker))
       = Some InvalidOperation"
  by (simp add: applyEval)

text \<open>
  C4, as the code has it. An Apply by the owner of the job, with a request that passes the
  route's validation, always fails and leaves the store as it was. The handler answers with
  the first check that fails, in the order inactive, deadline, existing application, own
  job: the failure is an invalid operation, also for an inactive job and for a passed
  deadline, except where the job is active and within its deadline and an application by
  the owner exists, which is answered as the conflict.
\<close>

theorem apply_own_job:
  assumes "map_of (jobs s) jid = Some j" and "createdBy j = uid u"
    and "req_jobId req = Oid jid" and "applyErrors req = []"
  shows "applyToJob flt now newId s req u =
           (if \<not> isActive j then reply 400 ''This job is no longer accepting applications''
            else if deadlinePassed now j then reply 400 ''Application deadline has passed''
            else if existingApplication s jid (uid u) \<noteq> None
              then reply 400 ''You have already applied to this job''
            else reply 400 ''You cannot apply to your own job posting'', s)
         \<and> kindOf (fst (applyToJob flt now newId s req u)) =
             (if isActive j \<and> \<not> deadlinePassed now j \<and> existingApplication s jid (uid u) \<noteq> None
              then Some Conflict else Some InvalidOperation)"
  using assms
  by (simp add: applyToJob_def applyBody_def catch500_def kindOf_def reply_def)

theorem apply_own_job_witness:
  "map_of (jobs postedStore) 1 = Some exampleJob \<and> createdBy exampleJob = uid recruiter
   \<and> req_jobId exampleApply = Oid 1 \<and> applyErrors exampleApply = []
   \<and> applyToJob {} 500 6 postedStore exampleApply recruiter
       = (reply 400 ''You cannot apply to your own job posting'', postedStore)
   \<and> applyToJob {} 1500 6 postedStore exampleApply recruiter
       = (reply 400 ''Application deadline has passed'', postedStore)
   \<and> kindOf (fst (applyToJob {} 1500 6 postedStore exampleApply recruiter))
       = Some InvalidOperation"
proof -
  have h1: "map_of (jobs postedStore) 1 = Some exampleJob" by (simp add: postedStore_def)
  have h2: "createdBy exampleJob = uid recruiter" by (simp add: exampleJob_def recruiter_def)
  have h3: "req_jobId exampleApply = Oid 1" by (simp add: exampleApply_def)
  have h4: "applyErrors exampleApply = []"
    by (simp add: applyErrors_def exampleApply_def)
  have e: "existingApplication postedStore 1 (uid recruiter) = None"
    by (simp add: existingApplication_def postedStore_def)
  have d: "isActive exampleJob" "\<not> deadlinePassed 500 exampleJob" "deadlinePassed 1500 exampleJob"
    by (simp_all add: deadlinePassed_def exampleJob_def)
  from apply_own_job[OF h1 h2 h3 h4, of "{}" 500 6] apply_own_job[OF h1 h2 h3 h4, of "{}" 1500 6]
  show ?thesis using h1 h2 h3 h4 e d by (simp add: kindOf_def reply_def)
qed

text \<open>
  The claim as stated fails where an application by the owner is already stored: the Apply
  is answered as the conflict. It also fails for a request that does not pass validation:
  a cover letter of 2001 characters is answered as the validation failure.
\<close>

theorem apply_own_job_counterexample:
  "applyToJob {} 500 6 ownerAppliedStore exampleApply recruiter
     = (reply 400 ''You have already applied to this job'', ownerAppliedStore)
   \<and> kindOf (fst (applyToJob {} 500 6 ownerAppliedStore exampleApply recruiter))
       = Some Conflict
   \<and> kindOf (fst (applyToJob {} 500 6 postedStore
        (exampleApply\<lparr>req_coverLetter := Some (replicate 2001 (CHR ''a''))\<rparr>) recruiter))
       = Some ValidationErr"
  by (simp add: applyEval)

subsection \<open>Reviewing\<close>

text \<open>
  Every successful UpdateStatus leaves the clock of that call in \<open>reviewedAt\<close>: the handler
  assigns the field before \<open>save\<close>, so the hook's guard \<open>!this.reviewedAt\<close> never holds.
\<close>

lemma updateStatus_stamps:
  assumes "updateStatus flt now s (Oid i) req u = (r, s')" and "statusCode r = 200"
  shows "map_option reviewedAt (map_of (applications s') i) = Some (Some now)"
  using assms
  by (auto simp: updateStatus_def updateStatusBody_def catch500_def saveApplication_def Let_def
        reply_def validationFailed_def assignReview_def preSaveApplication_def map_of_updateById
        split: option.splits if_splits idParam.splits sum.splits)

text \<open>
  C2 does not hold of the code. The owner moves the stored application from pending to
  reviewed at time 100 and from reviewed to shortlisted at time 200: \<open>reviewedAt\<close> is 100
  after the first call and 200 after the second, where the claim keeps it at 100.
\<close>

theorem updateStatus_overwrites_reviewedAt:
  "map_option reviewedAt (map_of (applications (snd
      (updateStatus {} 100 appliedStore (Oid 5) \<lparr>req_status = ''reviewed'', req_notes = None\<rparr> recruiter))) 5)
     = Some (Some 100)
   \<and> map_option reviewedAt (map_of (applications (snd
      (updateStatus {} 200
         (snd (updateStatus {} 100 appliedStore (Oid 5)
                 \<lparr>req_status = ''reviewed'', req_notes = None\<rparr> recruiter))
         (Oid 5) \<lparr>req_status = ''shortlisted'', req_notes = None\<rparr> recruiter))) 5)
     = Some (Some 200)"
  by (simp add: updateStatus_def updateStatusBody_def catch500_def saveApplication_def Let_def
        statusErrors_def statuses_def validateAppPaths_def validateAppPath_def modifiedPaths_def
        assignReview_def
        preSaveApplication_def updateById_def appliedStore_def exampleApplication_def
        exampleJob_def recruiter_def)

subsection \<open>Withdrawing\<close>

text \<open>
  C5. For a stored application whose applicant is the requester, Withdraw fails as an
  invalid operation exactly when the status is hired or rejected, and then changes nothing.
  For every other status, when the storage engine carries out both writes, it succeeds,
  the application is gone, every other application is as before, and the job the
  application referred to, where it is stored, has its \<open>applicationsCount\<close> lowered by
  exactly 1, every other job being as before.
\<close>

theorem withdraw_terminal:
  assumes "map_of (applications s) i = Some a" and "applicant a = uid u"
  shows "(kindOf (fst (withdraw flt s (Oid i) u)) = Some InvalidOperation
            \<longleftrightarrow> status a = ''hired'' \<or> status a = ''rejected'')
         \<and> (status a = ''hired'' \<or> status a = ''rejected'' \<longrightarrow>
              withdraw flt s (Oid i) u
                = (reply 400 ''Cannot withdraw application that has already been processed'', s))
         \<and> (status a \<noteq> ''hired'' \<and> status a \<noteq> ''rejected''
              \<and> DeleteApplication \<notin> flt \<and> DecApplications \<notin> flt \<longrightarrow>
              fst (withdraw flt s (Oid i) u) = reply 200 ''Application withdrawn successfully''
              \<and> map_of (applications (snd (withdraw flt s (Oid i) u))) i = None
              \<and> (\<forall>k. k \<noteq> i \<longrightarrow>
                    map_of (applications (snd (withdraw flt s (Oid i) u))) k = map_of (applications s) k)
              \<and> map_of (jobs (snd (withdraw flt s (Oid i) u))) (job a)
                  = map_option (\<lambda>d. d\<lparr>applicationsCount := applicationsCount d - 1\<rparr>)
                      (map_of (jobs s) (job a))
              \<and> (\<forall>k. k \<noteq> job a \<longrightarrow>
                    map_of (jobs (snd (withdraw flt s (Oid i) u))) k = map_of (jobs s) k))"
  using assms
  by (simp add: withdraw_def withdrawBody_def catch500_def Let_def kindOf_def reply_def
        map_of_updateById map_of_deleteById)

theorem withdraw_terminal_witness:
  "map_of (applications appliedStore) 5 = Some exampleApplication
   \<and> applicant exampleApplication = uid seeker
   \<and> fst (withdraw {} appliedStore (Oid 5) seeker) = reply 200 ''Application withdrawn successfully''
   \<and> map_of (applications (snd (withdraw {} appliedStore (Oid 5) seeker))) 5 = None
   \<and> map_option applicationsCount (map_of (jobs appliedStore) 1) = Some 1
   \<and> map_option applicationsCount (map_of (jobs (snd (withdraw {} appliedStore (Oid 5) seeker))) 1)
       = Some 0
   \<and> withdraw {} hiredStore (Oid 5) seeker
       = (reply 400 ''Cannot withdraw application that has already been processed'', hiredStore)
   \<and> kindOf (fst (withdraw {} hiredStore (Oid 5) seeker)) = Some InvalidOperation"
proof -
  have h1: "map_of (applications appliedStore) 5 = Some exampleApplication"
    by (simp add: appliedStore_def)
  have h2: "applicant exampleApplication = uid seeker"
    by (simp add: exampleApplication_def seeker_def)
  have h3: "status exampleApplication = ''pending''" "job exampleApplication = 1"
    by (simp_all add: exampleApplication_def)
  have h4: "map_of (jobs appliedStore) 1 = Some (exampleJob\<lparr>applicationsCount := 1\<rparr>)"
    by (simp add: appliedStore_def)
  have g1: "map_of (applications hiredStore) 5 = Some (exampleApplication\<lparr>status := ''hired''\<rparr>)"
    by (simp add: hiredStore_def)
  have g2: "applicant (exampleApplication\<lparr>status := ''hired''\<rparr>) = uid seeker"
    by (simp add: exampleApplication_def seeker_def)
  from withdraw_terminal[OF h1 h2, of "{}"] withdraw_terminal[OF g1 g2, of "{}"] h1 h2 h3 h4
  show ?thesis by (simp add: kindOf_def reply_def)
qed

subsection \<open>Reading a job\<close>

lemma userApplicationStatus_jobs:
  "userApplicationStatus (s\<lparr>jobs := js\<rparr>) i u = userApplicationStatus s i u"
  by (simp add: userApplicationStatus_def split: option.split)

text \<open>
  C6, as the code has it. A Get of a stored, active job whose increment the storage engine
  carries out returns the job and raises its \<open>viewsCount\<close> by exactly 1, nothing else in
  the store changing. When the engine refuses the increment, the Get does not return the
  job: the handler awaits the increment inside its \<open>try\<close> block, and the answer is the
  server error 500 with the store as it was.
\<close>

theorem getJob_views:
  assumes "map_of (jobs s) i = Some j" and "isActive j"
  shows "(IncViews \<notin> flt \<longrightarrow>
            fst (getJob flt s (Oid i) u)
              = \<lparr>statusCode = 200, message = [], payload = JobData i j (userApplicationStatus s i u)\<rparr>
            \<and> map_of (jobs (snd (getJob flt s (Oid i) u))) i = Some (j\<lparr>viewsCount := viewsCount j + 1\<rparr>)
            \<and> (\<forall>k. k \<noteq> i \<longrightarrow> map_of (jobs (snd (getJob flt s (Oid i) u))) k = map_of (jobs s) k)
            \<and> applications (snd (getJob flt s (Oid i) u)) = applications s)
         \<and> (IncViews \<in> flt \<longrightarrow>
              getJob flt s (Oid i) u = (reply 500 ''Server error fetching job'', s))"
  using assms
  by (simp add: getJob_def getJobBody_def Let_def map_of_updateById userApplicationStatus_jobs)

theorem getJob_views_witness:
  "map_of (jobs postedStore) 1 = Some exampleJob \<and> isActive exampleJob
   \<and> statusCode (fst (getJob {} postedStore (Oid 1) None)) = 200
   \<and> payload (fst (getJob {} postedStore (Oid 1) None)) = JobData 1 exampleJob None
   \<and> map_option viewsCount (map_of (jobs postedStore) 1) = Some 0
   \<and> map_option viewsCount (map_of (jobs (snd (getJob {} postedStore (Oid 1) None))) 1) = Some 1"
proof -
  have h1: "map_of (jobs postedStore) 1 = Some exampleJob" by (simp add: postedStore_def)
  have h2: "isActive exampleJob" by (simp add: exampleJob_def)
  have h3: "viewsCount exampleJob = 0" by (simp add: exampleJob_def)
  from getJob_views[OF h1 h2, of "{}" None] h1 h2 h3
  show ?thesis by (simp add: userApplicationStatus_def)
qed

text \<open>
  The claim as stated fails where the increment is refused: the Get of the stored, active
  job answers 500 without the job.
\<close>

theorem getJob_views_counterexample:
  "getJob {IncViews} postedStore (Oid 1) None = (reply 500 ''Server error fetching job'', postedStore)
   \<and> statusCode (fst (getJob {IncViews} postedStore (Oid 1) None)) = 500
   \<and> payload (fst (getJob {IncViews} postedStore (Oid 1) None)) = NoData"
  by (simp add: getJob_def getJobBody_def reply_def postedStore_def exampleJob_def)

text \<open>
  C10. A Get whose id does not cast to a document identifier is answered with the structured
  validation failure "Invalid job ID format" (status 400), not with NotFound and not with the
  generic server error, and the store is left as it was.
\<close>

theorem getJob_malformed_id:
  "getJob flt s (Malformed x) u = (reply 400 ''Invalid job ID format'', s)
   \<and> kindOf (fst (getJob flt s (Malformed x) u)) = Some ValidationErr"
  by (simp add: getJob_def getJobBody_def kindOf_def reply_def)

subsection \<open>Deleting a job\<close>

text \<open>
  C7. After a Delete of a job that answered with success, a GetOne on any application that
  referred to the job answers "Application not found" (404), for every requester; the job
  is gone and no stored application refers to it. The handler answers with success only when
  both the removal of the job and the removal of its applications were carried out. The
  store is one whose applications have distinct identifiers, as \<open>_id\<close> guarantees.
\<close>

theorem deleteJob_cascade:
  assumes "deleteJob flt s (Oid i) u = (r, s')" and "statusCode r = 200"
    and "distinct (map fst (applications s))"
    and "(k, a) \<in> set (applications s)" and "job a = i"
  shows "getOne s' (Oid k) v = (reply 404 ''Application not found'', s')
         \<and> kindOf (fst (getOne s' (Oid k) v)) = Some NotFound
         \<and> map_of (jobs s') i = None
         \<and> list_all (\<lambda>(k', a'). job a' \<noteq> i) (applications s')"
proof -
  from assms(1,2) have s': "s' = s\<lparr>jobs := deleteById i (jobs s),
                                  applications := filter (\<lambda>(k, a). job a \<noteq> i) (applications s)\<rparr>"
    by (auto simp: deleteJob_def deleteJobBody_def catch500_def Let_def reply_def
             split: option.splits if_splits)
  have "map_of (applications s') k = None"
    unfolding s' using map_of_filter_None[OF assms(3,4), of "\<lambda>(k, a). job a \<noteq> i"] assms(5)
    by simp
  then have g: "getOne s' (Oid k) v = (reply 404 ''Application not found'', s')"
    by (simp add: getOne_def getOneBody_def catch500_def)
  have "list_all (\<lambda>(k', a'). job a' \<noteq> i) (applications s')"
    unfolding s' by (auto simp: list_all_iff)
  moreover have "map_of (jobs s') i = None"
    unfolding s' by (simp add: map_of_deleteById)
  ultimately show ?thesis using g by (simp add: kindOf_def reply_def)
qed

theorem deleteJob_cascade_witness:
  "deleteJob {} appliedStore (Oid 1) recruiter = (reply 200 ''Job deleted successfully'', emptyStore)
   \<and> statusCode (reply 200 ''Job deleted successfully'') = 200
   \<and> distinct (map fst (applications appliedStore))
   \<and> (5, exampleApplication) \<in> set (applications appliedStore)
   \<and> job exampleApplication = 1
   \<and> statusCode (fst (getOne appliedStore (Oid 5) seeker)) = 200
   \<and> getOne emptyStore (Oid 5) seeker = (reply 404 ''Application not found'', emptyStore)"
proof -
  have h1: "deleteJob {} appliedStore (Oid 1) recruiter
              = (reply 200 ''Job deleted successfully'', emptyStore)"
    by (simp add: deleteJob_def deleteJobBody_def catch500_def Let_def deleteById_def
          appliedStore_def emptyStore_def exampleJob_def exampleApplication_def recruiter_def)
  have h2: "statusCode (reply 200 ''Job deleted successfully'') = 200" by (simp add: reply_def)
  have h3: "distinct (map fst (applications appliedStore))" by (simp add: appliedStore_def)
  have h4: "(5, exampleApplication) \<in> set (applications appliedStore)" by (simp add: appliedStore_def)
  have h5: "job exampleApplication = 1" by (simp add: exampleApplication_def)
  have h6: "statusCode (fst (getOne appliedStore (Oid 5) seeker)) = 200"
    by (simp add: getOne_def getOneBody_def catch500_def appliedStore_def exampleApplication_def
          seeker_def)
  from deleteJob_cascade[OF h1 h2 h3 h4 h5, of seeker] h1 h2 h3 h4 h5 h6
  show ?thesis by simp
qed

subsection \<open>Updating a job\<close>

text \<open>A key outside the three protected ones leaves the protected fields alone.\<close>

lemma setField_frame:
  assumes "setField k v j = Some j'"
    and "k \<noteq> ''createdBy''" and "k \<noteq> ''applicationsCount''" and "k \<noteq> ''viewsCount''"
  shows "createdBy j' = createdBy j \<and> applicationsCount j' = applicationsCount j
         \<and> viewsCount j' = viewsCount j"
  using assms unfolding setField_def
  by (auto split: if_splits jvalue.splits)

lemma allowed_not_protected:
  assumes "k \<in> set allowedUpdates"
  shows "k \<noteq> ''createdBy'' \<and> k \<noteq> ''applicationsCount'' \<and> k \<noteq> ''viewsCount''"
  using assms by (auto simp: allowedUpdates_def)

lemma applyFields_frame:
  assumes "set (map fst kvs) \<subseteq> set allowedUpdates" and "applyFields kvs j = Some j'"
  shows "createdBy j' = createdBy j \<and> applicationsCount j' = applicationsCount j
         \<and> viewsCount j' = viewsCount j"
  using assms
proof (induction kvs arbitrary: j)
  case Nil
  then show ?case by simp
next
  case (Cons kv kvs)
  obtain k v where kv: "kv = (k, v)" by (cases kv)
  from Cons.prems(2) kv obtain j1 where s: "setField k v j = Some j1" and r: "applyFields kvs j1 = Some j'"
    by (auto split: option.splits)
  from Cons.prems(1) kv have k: "k \<in> set allowedUpdates" and ks: "set (map fst kvs) \<subseteq> set allowedUpdates"
    by auto
  from allowed_not_protected[OF k] setField_frame[OF s]
  have "createdBy j1 = createdBy j \<and> applicationsCount j1 = applicationsCount j
         \<and> viewsCount j1 = viewsCount j" by blast
  with Cons.IH[OF ks r] show ?case by simp
qed

lemma keys_normalizeTagsIn: "map fst (normalizeTagsIn b) = map fst b"
  by (induction b) (auto simp: normalizeTagsIn_def split: jvalue.splits)

lemma allowed_updates_keys:
  "set (map fst (normalizeTagsIn (filter (\<lambda>(k, v). k \<in> set A) b))) \<subseteq> set A"
  by (auto simp: keys_normalizeTagsIn)

text \<open>
  C8. Whatever keys the body of an Update carries, whoever asks and whatever the outcome,
  the stored jobs keep their \<open>createdBy\<close>, \<open>applicationsCount\<close> and \<open>viewsCount\<close>,
  the set of stored jobs is the same and the applications are untouched. These three are
  the fields of a job document outside the allow-list, so only allow-listed fields change.
\<close>

theorem updateJob_frame:
  "applications (snd (updateJob flt s p b u)) = applications s
   \<and> map fst (jobs (snd (updateJob flt s p b u))) = map fst (jobs s)
   \<and> map_option createdBy (map_of (jobs (snd (updateJob flt s p b u))) k)
       = map_option createdBy (map_of (jobs s) k)
   \<and> map_option applicationsCount (map_of (jobs (snd (updateJob flt s p b u))) k)
       = map_option applicationsCount (map_of (jobs s) k)
   \<and> map_option viewsCount (map_of (jobs (snd (updateJob flt s p b u))) k)
       = map_option viewsCount (map_of (jobs s) k)"
proof (cases "\<exists>i j j'. p = Oid i \<and> map_of (jobs s) i = Some j
          \<and> applyFields (normalizeTagsIn (filter (\<lambda>(k, v). k \<in> set allowedUpdates) b)) j = Some j'
          \<and> snd (updateJob flt s p b u) = s\<lparr>jobs := updateById i (\<lambda>old. j') (jobs s)\<rparr>")
  case True
  then obtain i j j' where p: "p = Oid i" and j: "map_of (jobs s) i = Some j"
    and a: "applyFields (normalizeTagsIn (filter (\<lambda>(k, v). k \<in> set allowedUpdates) b)) j = Some j'"
    and s': "snd (updateJob flt s p b u) = s\<lparr>jobs := updateById i (\<lambda>old. j') (jobs s)\<rparr>"
    by blast
  from applyFields_frame[OF allowed_updates_keys a]
  show ?thesis using j by (simp add: s' map_of_updateById map_fst_updateById)
next
  case False
  then have "snd (updateJob flt s p b u) = s"
    by (auto simp: updateJob_def updateJobBody_def findByIdAndUpdate_def catch500_def Let_def
          split: idParam.splits option.splits if_splits sum.splits)
  then show ?thesis by simp
qed

text \<open>
  The theorem at work: an Update by the owner whose body names a new title next to
  \<open>createdBy\<close>, \<open>applicationsCount\<close> and \<open>viewsCount\<close> changes the title and nothing
  of the three.
\<close>

theorem updateJob_frame_witness:
  "map_option title (map_of (jobs (snd (updateJob {} postedStore (Oid 1) massAssignment recruiter))) 1)
     = Some ''Platform engineer''
   \<and> map_option createdBy (map_of (jobs (snd (updateJob {} postedStore (Oid 1) massAssignment recruiter))) 1)
       = Some 10
   \<and> map_option applicationsCount
        (map_of (jobs (snd (updateJob {} postedStore (Oid 1) massAssignment recruiter))) 1) = Some 0
   \<and> map_option viewsCount
        (map_of (jobs (snd (updateJob {} postedStore (Oid 1) massAssignment recruiter))) 1) = Some 0"
proof -
  have t: "map_option title (map_of (jobs (snd (updateJob {} postedStore (Oid 1) massAssignment recruiter))) 1)
     = Some ''Platform engineer''"
    by (simp add: jobEval)
  have j: "map_of (jobs postedStore) 1 = Some exampleJob" by (simp add: postedStore_def)
  have e: "createdBy exampleJob = 10" "applicationsCount exampleJob = 0" "viewsCount exampleJob = 0"
    by (simp_all add: exampleJob_def)
  from updateJob_frame[of "{}" postedStore "Oid 1" massAssignment recruiter 1] t j e
  show ?thesis by simp
qed

subsection \<open>The salary range\<close>

text \<open>
  C3 does not hold of the code. An Update by the owner with salary 5000 to 3000 succeeds and
  stores the inverted range: \<open>findByIdAndUpdate\<close> runs the schema's validators, not the
  pre-save hook that compares the bounds. A Create with the same range is refused by the
  hook before anything is stored, and answered as the server error 500. A Create with
  salary 5 to 0 succeeds and stores the inverted range: the hook reads a bound of zero as
  absent.
\<close>

theorem update_stores_inverted_range:
  "statusCode (fst (updateJob {} postedStore (Oid 1) invertedSalary recruiter)) = 200
   \<and> map_option salary (map_of (jobs (snd (updateJob {} postedStore (Oid 1) invertedSalary recruiter))) 1)
       = Some \<lparr>min_sal = Some 5000, max_sal = Some 3000, currency = None, period = None\<rparr>
   \<and> createJob {} 2 postedStore (bodyWithSalary 5000 3000) recruiter
       = (reply 500 ''Server error creating job'', postedStore)
   \<and> statusCode (fst (createJob {} 2 postedStore (bodyWithSalary 5 0) recruiter)) = 201
   \<and> map_option salary (map_of (jobs (snd (createJob {} 2 postedStore (bodyWithSalary 5 0) recruiter))) 2)
       = Some \<lparr>min_sal = Some 5, max_sal = Some 0, currency = Some ''USD'', period = Some ''yearly''\<rparr>"
  by (simp add: jobEval)

subsection \<open>Listing with a salary ceiling only\<close>

lemma buildQuery_maxSalary_only:
  assumes "q_minSalary q = None" and "q_maxSalary q = Some m"
  shows "f_salary_min (buildQuery q) = Some \<lparr>gte = None, lte = None\<rparr>"
    and "f_salary_max (buildQuery q) = Some \<lparr>gte = None, lte = Some m\<rparr>"
  using assms by (simp_all add: buildQuery_def)

lemma findJobs_maxSalary_only:
  assumes "q_minSalary q = None" and "q_maxSalary q = Some m"
  shows "findJobs eng (buildQuery q) s = Inl CastError"
  using buildQuery_maxSalary_only(1)[OF assms] by (simp add: findJobs_def isEmptyCond_def)

lemma listJobs_maxSalary_only_response:
  assumes "q_minSalary q = None" and "q_maxSalary q = Some m"
  shows "listJobs eng s q u =
           (if listErrors q \<noteq> [] then validationFailed (listErrors q)
            else reply 500 ''Server error fetching jobs'', s)"
  by (simp add: listJobs_def listJobsBody_def catch500_def findJobs_maxSalary_only[OF assms]
        Let_def)

lemmas listEval = listJobs_def listJobsBody_def catch500_def listErrors_def findJobs_def
  buildQuery_def buildSort_def truthyStr_def truthyVal_def isEmptyCond_def matchesFilter_def
  matchNum_def matchVal_def sortDocs_def Let_def reply_def
  exampleEngine_def maxSalaryOnly_def postedStore_def exampleJob_def

text \<open>
  C9, as the code has it. For a List call with a \<open>maxSalary\<close> and no \<open>minSalary\<close>, the
  handler's filter constrains \<open>salary.min\<close> by a constraint object without operators, next
  to the ceiling on \<open>salary.max\<close>. No page is returned for it: the query is rejected when
  the filter is cast, and the call, when its page and limit pass validation, is answered as
  the server error 500 "Server error fetching jobs", whatever the store holds and whoever
  asks; the store is left as it was. So the filter returns no job, by failing and not by an
  empty page.
\<close>

theorem listJobs_maxSalary_only:
  assumes "q_minSalary q = None" and "q_maxSalary q = Some m"
  shows "f_salary_min (buildQuery q) = Some \<lparr>gte = None, lte = None\<rparr>
         \<and> f_salary_max (buildQuery q) = Some \<lparr>gte = None, lte = Some m\<rparr>
         \<and> listJobs eng s q u =
             (if listErrors q \<noteq> [] then validationFailed (listErrors q)
              else reply 500 ''Server error fetching jobs'', s)"
  using buildQuery_maxSalary_only[OF assms] listJobs_maxSalary_only_response[OF assms]
  by simp

text \<open>
  The theorem at work: the posted job has a salary of 3000 to 5000. It is listed when no
  salary filter is given, and when a floor of 1 comes with the ceiling of 100000; with the
  ceiling alone the call is the server error.
\<close>

theorem listJobs_maxSalary_only_witness:
  "q_minSalary maxSalaryOnly = None \<and> q_maxSalary maxSalaryOnly = Some 100000
   \<and> min_sal (salary exampleJob) = Some 3000 \<and> max_sal (salary exampleJob) = Some 5000
   \<and> payload (fst (listJobs exampleEngine postedStore (maxSalaryOnly\<lparr>q_maxSalary := None\<rparr>) None))
       = JobsPage [(1, exampleJob, None)]
           \<lparr>currentPage = 1, totalPages = 1, totalJobs = 1, limit = 10, hasNext = False,
            hasPrev = False\<rparr>
   \<and> payload (fst (listJobs exampleEngine postedStore (maxSalaryOnly\<lparr>q_minSalary := Some 1\<rparr>) None))
       = JobsPage [(1, exampleJob, None)]
           \<lparr>currentPage = 1, totalPages = 1, totalJobs = 1, limit = 10, hasNext = False,
            hasPrev = False\<rparr>
   \<and> listJobs exampleEngine postedStore maxSalaryOnly None
       = (reply 500 ''Server error fetching jobs'', postedStore)"
proof -
  have h1: "q_minSalary maxSalaryOnly = None" and h2: "q_maxSalary maxSalaryOnly = Some 100000"
    by (simp_all add: maxSalaryOnly_def)
  have h3: "min_sal (salary exampleJob) = Some 3000" "max_sal (salary exampleJob) = Some 5000"
    by (simp_all add: exampleJob_def)
  have e: "listErrors maxSalaryOnly = []"
    by (simp add: listErrors_def maxSalaryOnly_def)
  have free: "payload (fst (listJobs exampleEngine postedStore (maxSalaryOnly\<lparr>q_maxSalary := None\<rparr>) None))
       = JobsPage [(1, exampleJob, None)]
           \<lparr>currentPage = 1, totalPages = 1, totalJobs = 1, limit = 10, hasNext = False,
            hasPrev = False\<rparr>"
    by (simp add: listEval)
  have both: "payload (fst (listJobs exampleEngine postedStore (maxSalaryOnly\<lparr>q_minSalary := Some 1\<rparr>) None))
       = JobsPage [(1, exampleJob, None)]
           \<lparr>currentPage = 1, totalPages = 1, totalJobs = 1, limit = 10, hasNext = False,
            hasPrev = False\<rparr>"
    by (simp add: listEval)
  from listJobs_maxSalary_only[OF h1 h2, of exampleEngine postedStore None] h1 h2 h3 e free both
  show ?thesis by simp
qed

text \<open>
  The claim as stated fails at the posted job and the ceiling of 100000: no page is
  returned, the answer is the server error without data.
\<close>

theorem listJobs_maxSalary_only_counterexample:
  "listJobs exampleEngine postedStore maxSalaryOnly None
     = (reply 500 ''Server error fetching jobs'', postedStore)
   \<and> statusCode (fst (listJobs exampleEngine postedStore maxSalaryOnly None)) = 500
   \<and> payload (fst (listJobs exampleEngine postedStore maxSalaryOnly None)) = NoData"
  by (simp add: listEval)

end
